theory Spec2Isabelle
  imports Main
begin

section \<open>Build controller: the model\<close>

text \<open>
  The definitions follow \<^verbatim>\<open>pkg/build/controller/build/build_controller.go\<close>.
  Pointers that may be nil are options, Go slices are lists, the Go map of the trigger
  queue is a partial function.
\<close>

subsection \<open>Build phases\<close>

text \<open>The values of \<^verbatim>\<open>buildv1.BuildPhase\<close> that a Build's status can carry.\<close>

datatype BuildPhase =
    BuildPhaseNew
  | BuildPhasePending
  | BuildPhaseRunning
  | BuildPhaseComplete
  | BuildPhaseFailed
  | BuildPhaseError
  | BuildPhaseCancelled

text \<open>
  Modelled from the spec: \<^verbatim>\<open>buildutil.IsTerminalPhase\<close> is declared outside this
  file; the terminal phases are \<^verbatim>\<open>Complete, Failed, Error, Cancelled\<close>.
\<close>

fun IsTerminalPhase :: "BuildPhase \<Rightarrow> bool" where
  "IsTerminalPhase BuildPhaseNew = False"
| "IsTerminalPhase BuildPhasePending = False"
| "IsTerminalPhase BuildPhaseRunning = False"
| "IsTerminalPhase BuildPhaseComplete = True"
| "IsTerminalPhase BuildPhaseFailed = True"
| "IsTerminalPhase BuildPhaseError = True"
| "IsTerminalPhase BuildPhaseCancelled = True"

text \<open>
  \<^verbatim>\<open>isValidTransition\<close>: equal phases first, then the \<^verbatim>\<open>switch\<close> with its three
  cases in the order of the source; a case whose inner switch does not match falls out
  of the outer switch to the final \<^verbatim>\<open>return true\<close>.
\<close>

definition isValidTransition :: "BuildPhase \<Rightarrow> BuildPhase \<Rightarrow> bool" where
  "isValidTransition from to =
     (if from = to then True
      else if IsTerminalPhase from then False
      else if from = BuildPhasePending then
        (case to of BuildPhaseNew \<Rightarrow> False | _ \<Rightarrow> True)
      else if from = BuildPhaseRunning then
        (case to of BuildPhaseNew \<Rightarrow> False | BuildPhasePending \<Rightarrow> False | _ \<Rightarrow> True)
      else True)"

subsection \<open>The trigger queue\<close>

text \<open>
  \<^verbatim>\<open>resourceTriggerQueue.queue\<close> is a Go \<^verbatim>\<open>map[string][]string\<close>; the mutex has no
  counterpart, every operation below runs as one step.
\<close>

type_synonym resourceTriggerQueue = "string \<rightharpoonup> string list"

definition newResourceTriggerQueue :: resourceTriggerQueue where
  "newResourceTriggerQueue = Map.empty"

text \<open>Reading \<^verbatim>\<open>q.queue[key]\<close>: a key that is absent reads as the nil slice.\<close>

definition bucket :: "resourceTriggerQueue \<Rightarrow> string \<Rightarrow> string list" where
  "bucket q key = (case q key of None \<Rightarrow> [] | Some resources \<Rightarrow> resources)"

fun Add :: "string \<Rightarrow> string list \<Rightarrow> resourceTriggerQueue \<Rightarrow> resourceTriggerQueue" where
  "Add resource [] q = q"
| "Add resource (key # on) q = Add resource on (q(key \<mapsto> bucket q key @ [resource]))"

fun Remove :: "string \<Rightarrow> string list \<Rightarrow> resourceTriggerQueue \<Rightarrow> resourceTriggerQueue" where
  "Remove resource [] q = q"
| "Remove resource (key # on) q =
     Remove resource on
       (q(key \<mapsto> filter (\<lambda>existing. existing \<noteq> resource) (bucket q key)))"

definition Pop :: "string \<Rightarrow> resourceTriggerQueue \<Rightarrow> string list \<times> resourceTriggerQueue" where
  "Pop key q = (bucket q key, q(key := None))"

definition resourceName :: "string \<Rightarrow> string \<Rightarrow> string" where
  "resourceName namespace name = namespace @ ''/'' @ name"

subsection \<open>Time\<close>

text \<open>
  A \<^verbatim>\<open>metav1.Time\<close> is an instant, kept as its number of nanoseconds since the Unix
  epoch; a \<^verbatim>\<open>time.Duration\<close> is a signed 64-bit number of nanoseconds.
  \<^verbatim>\<open>Rfc3339Copy\<close> formats the instant with second granularity and parses it back,
  which drops the fraction of the second. \<^verbatim>\<open>Time.Sub\<close> returns the difference, or
  the largest (smallest) duration when the difference does not fit.
\<close>

type_synonym Time = int
type_synonym Duration = int

definition Second :: Duration where
  "Second = 1000000000"

definition minDuration :: Duration where
  "minDuration = - (2 ^ 63)"

definition maxDuration :: Duration where
  "maxDuration = 2 ^ 63 - 1"

definition Rfc3339Copy :: "Time \<Rightarrow> Time" where
  "Rfc3339Copy t = (t div Second) * Second"

definition Sub :: "Time \<Rightarrow> Time \<Rightarrow> Duration" where
  "Sub t u =
     (if t - u < minDuration then minDuration
      else if maxDuration < t - u then maxDuration
      else t - u)"

subsection \<open>Strings\<close>

text \<open>
  Go strings are byte sequences and \<^verbatim>\<open>len\<close> and slicing count bytes, as
  \<^typ>\<open>string\<close> does. \<^verbatim>\<open>strings.TrimRight\<close> drops every trailing byte of the
  cutset, \<^verbatim>\<open>strings.Split\<close> (here with a separator of one byte) returns one more
  part than there are separators, \<^verbatim>\<open>strings.Join\<close> puts the separator between
  the parts.
\<close>

definition TrimRight :: "string \<Rightarrow> string \<Rightarrow> string" where
  "TrimRight s cutset = rev (dropWhile (\<lambda>c. c \<in> set cutset) (rev s))"

fun Split :: "string \<Rightarrow> char \<Rightarrow> string list" where
  "Split [] sep = [[]]"
| "Split (c # cs) sep =
     (if c = sep then [] # Split cs sep
      else (case Split cs sep of
              part # parts \<Rightarrow> (c # part) # parts
            | [] \<Rightarrow> [[c]]))"

fun Join :: "string list \<Rightarrow> string \<Rightarrow> string" where
  "Join [] sep = []"
| "Join [part] sep = part"
| "Join (part # next_part # parts) sep = part @ sep @ Join (next_part # parts) sep"

subsection \<open>Pods\<close>

text \<open>
  The fields of \<^verbatim>\<open>corev1.Pod\<close> that the controller reads. A pod phase other than
  the four the controller switches on is \<open>PodUnknown\<close>.
\<close>

datatype PodPhase = PodPending | PodRunning | PodSucceeded | PodFailed | PodUnknown

record ContainerStateTerminated =
  ExitCode :: int
  Reason :: string
  Message :: string

record ContainerStatus =
  Name :: string
  Running :: bool
  Terminated :: "ContainerStateTerminated option"

record Pod =
  pod_Namespace :: string
  pod_Name :: string
  pod_DeletionTimestamp :: "Time option"
  pod_Phase :: PodPhase
  pod_Reason :: string
  pod_StartTime :: "Time option"
  pod_InitContainerStatuses :: "ContainerStatus list"
  pod_ContainerStatuses :: "ContainerStatus list"

text \<open>
  Modelled from the spec: \<^verbatim>\<open>strategy.GitCloneContainer\<close> is declared outside this
  file; it names the \<^verbatim>\<open>git-clone\<close> init container.
\<close>

definition GitCloneContainer :: string where
  "GitCloneContainer = ''git-clone''"

subsection \<open>Builds\<close>

text \<open>
  Status reasons are the strings of the Build's status contract. The texts of the
  status messages (\<^verbatim>\<open>buildutil.StatusMessage...\<close>) are declared outside this file
  and stay symbolic; \<open>Text\<close> carries any other message, \<open>Text []\<close> the empty one.
\<close>

type_synonym StatusReason = string

abbreviation StatusReasonCancelledBuild :: StatusReason where
  "StatusReasonCancelledBuild \<equiv> ''CancelledBuild''"
abbreviation StatusReasonBuildPodExists :: StatusReason where
  "StatusReasonBuildPodExists \<equiv> ''BuildPodExists''"
abbreviation StatusReasonBuildPodDeleted :: StatusReason where
  "StatusReasonBuildPodDeleted \<equiv> ''BuildPodDeleted''"
abbreviation StatusReasonMissingPushSecret :: StatusReason where
  "StatusReasonMissingPushSecret \<equiv> ''MissingPushSecret''"
abbreviation StatusReasonInvalidOutputReference :: StatusReason where
  "StatusReasonInvalidOutputReference \<equiv> ''InvalidOutputReference''"
abbreviation StatusReasonInvalidImageReference :: StatusReason where
  "StatusReasonInvalidImageReference \<equiv> ''InvalidImageReference''"
abbreviation StatusReasonOutOfMemoryKilled :: StatusReason where
  "StatusReasonOutOfMemoryKilled \<equiv> ''OutOfMemoryKilled''"
abbreviation StatusReasonFailedContainer :: StatusReason where
  "StatusReasonFailedContainer \<equiv> ''FailedContainer''"
abbreviation StatusReasonNoBuildContainerStatus :: StatusReason where
  "StatusReasonNoBuildContainerStatus \<equiv> ''NoBuildContainerStatus''"
abbreviation StatusReasonGenericBuildFailed :: StatusReason where
  "StatusReasonGenericBuildFailed \<equiv> ''GenericBuildFailed''"

datatype StatusMessage =
    Text string
  | StatusMessageCancelledBuild
  | StatusMessageBuildPodExists
  | StatusMessageBuildPodDeleted
  | StatusMessageMissingPushSecret
  | StatusMessageInvalidOutputRef
  | StatusMessageInvalidImageRef
  | StatusMessageOutOfMemoryKilled
  | StatusMessageFailedContainer
  | StatusMessageNoBuildContainerStatus
  | StatusMessageGenericBuildFailed

record ObjectReference =
  Kind :: string
  ref_Namespace :: string
  ref_Name :: string

text \<open>
  The fields of \<^verbatim>\<open>buildv1.Build\<close> that the controller reads or writes.
  \<open>PodNameAnnotation\<close> is the value of the annotation
  \<^verbatim>\<open>build.openshift.io/build.pod-name\<close>, \<open>None\<close> when the Build does not carry it.
  \<open>JenkinsPipelineStrategy\<close> tells whether that strategy pointer is set.
  \<open>InputRefs\<close> are the image references of the Build's source images and strategy,
  \<open>Output_To\<close> is \<^verbatim>\<open>Spec.Output.To\<close>, \<open>Output_PushSecret\<close> the name in
  \<^verbatim>\<open>Spec.Output.PushSecret\<close>.
\<close>

record Build =
  Namespace :: string
  build_Name :: string
  PodNameAnnotation :: "string option"
  JenkinsPipelineStrategy :: bool
  InputRefs :: "ObjectReference list"
  Output_To :: "ObjectReference option"
  Output_PushSecret :: "string option"
  Phase :: BuildPhase
  Cancelled :: bool
  status_Reason :: StatusReason
  status_Message :: StatusMessage
  StartTimestamp :: "Time option"
  CompletionTimestamp :: "Time option"
  status_Duration :: Duration
  OutputDockerImageReference :: string
  LogSnippet :: string

text \<open>
  Modelled from the spec: \<^verbatim>\<open>buildutil.IsBuildComplete\<close> is declared outside this
  file; a Build is complete when its phase is terminal.
\<close>

definition IsBuildComplete :: "Build \<Rightarrow> bool" where
  "IsBuildComplete build = IsTerminalPhase (Phase build)"

text \<open>
  Modelled from the spec: \<^verbatim>\<open>common.HasBuildPodNameAnnotation\<close> is declared outside
  this file; it tells whether the Build carries the pod-name annotation.
\<close>

definition HasBuildPodNameAnnotation :: "Build \<Rightarrow> bool" where
  "HasBuildPodNameAnnotation build = (PodNameAnnotation build \<noteq> None)"

subsection \<open>Build updates\<close>

text \<open>
  Modelled from the spec: the type \<^verbatim>\<open>buildUpdate\<close>, its setters, \<^verbatim>\<open>isEmpty\<close> and
  \<^verbatim>\<open>apply\<close> are declared in another file of the package. A \<^verbatim>\<open>buildUpdate\<close> has the
  optional fields \<^verbatim>\<open>phase, reason, message, startTime, completionTime, duration,
  logSnippet, podNameAnnotation, pushSecret, outputRef\<close>; each setter sets its field;
  \<^verbatim>\<open>isEmpty\<close> holds iff every field is unset; \<^verbatim>\<open>apply\<close> (here \<open>apply_update\<close>)
  writes every set field into the Build and leaves the others as they are.
\<close>

record buildUpdate =
  podNameAnnotation :: "string option"
  phase :: "BuildPhase option"
  reason :: "StatusReason option"
  message :: "StatusMessage option"
  startTime :: "Time option"
  completionTime :: "Time option"
  duration :: "Duration option"
  outputRef :: "string option"
  logSnippet :: "string option"
  pushSecret :: "string option"

definition emptyUpdate :: buildUpdate where
  "emptyUpdate =
     \<lparr>podNameAnnotation = None, phase = None, reason = None, message = None,
      startTime = None, completionTime = None, duration = None, outputRef = None,
      logSnippet = None, pushSecret = None\<rparr>"

definition setPodNameAnnotation :: "string \<Rightarrow> buildUpdate \<Rightarrow> buildUpdate" where
  "setPodNameAnnotation podName u = u\<lparr>podNameAnnotation := Some podName\<rparr>"

definition setPhase :: "BuildPhase \<Rightarrow> buildUpdate \<Rightarrow> buildUpdate" where
  "setPhase p u = u\<lparr>phase := Some p\<rparr>"

definition setReason :: "StatusReason \<Rightarrow> buildUpdate \<Rightarrow> buildUpdate" where
  "setReason r u = u\<lparr>reason := Some r\<rparr>"

definition setMessage :: "StatusMessage \<Rightarrow> buildUpdate \<Rightarrow> buildUpdate" where
  "setMessage m u = u\<lparr>message := Some m\<rparr>"

definition setStartTime :: "Time \<Rightarrow> buildUpdate \<Rightarrow> buildUpdate" where
  "setStartTime t u = u\<lparr>startTime := Some t\<rparr>"

definition setCompletionTime :: "Time \<Rightarrow> buildUpdate \<Rightarrow> buildUpdate" where
  "setCompletionTime t u = u\<lparr>completionTime := Some t\<rparr>"

definition setDuration :: "Duration \<Rightarrow> buildUpdate \<Rightarrow> buildUpdate" where
  "setDuration d u = u\<lparr>duration := Some d\<rparr>"

definition setOutputRef :: "string \<Rightarrow> buildUpdate \<Rightarrow> buildUpdate" where
  "setOutputRef r u = u\<lparr>outputRef := Some r\<rparr>"

definition setLogSnippet :: "string \<Rightarrow> buildUpdate \<Rightarrow> buildUpdate" where
  "setLogSnippet s u = u\<lparr>logSnippet := Some s\<rparr>"

definition setPushSecret :: "string \<Rightarrow> buildUpdate \<Rightarrow> buildUpdate" where
  "setPushSecret s u = u\<lparr>pushSecret := Some s\<rparr>"

definition isEmpty :: "buildUpdate \<Rightarrow> bool" where
  "isEmpty u =
     (podNameAnnotation u = None \<and> phase u = None \<and> reason u = None \<and> message u = None
      \<and> startTime u = None \<and> completionTime u = None \<and> duration u = None
      \<and> outputRef u = None \<and> logSnippet u = None \<and> pushSecret u = None)"

definition apply_update :: "buildUpdate \<Rightarrow> Build \<Rightarrow> Build" where
  "apply_update u build =
     build\<lparr>
       PodNameAnnotation :=
         (case podNameAnnotation u of None \<Rightarrow> PodNameAnnotation build | Some n \<Rightarrow> Some n),
       Phase := (case phase u of None \<Rightarrow> Phase build | Some p \<Rightarrow> p),
       status_Reason := (case reason u of None \<Rightarrow> status_Reason build | Some r \<Rightarrow> r),
       status_Message := (case message u of None \<Rightarrow> status_Message build | Some m \<Rightarrow> m),
       StartTimestamp := (case startTime u of None \<Rightarrow> StartTimestamp build | Some t \<Rightarrow> Some t),
       CompletionTimestamp :=
         (case completionTime u of None \<Rightarrow> CompletionTimestamp build | Some t \<Rightarrow> Some t),
       status_Duration := (case duration u of None \<Rightarrow> status_Duration build | Some d \<Rightarrow> d),
       OutputDockerImageReference :=
         (case outputRef u of None \<Rightarrow> OutputDockerImageReference build | Some r \<Rightarrow> r),
       LogSnippet := (case logSnippet u of None \<Rightarrow> LogSnippet build | Some s \<Rightarrow> s),
       Output_PushSecret :=
         (case pushSecret u of None \<Rightarrow> Output_PushSecret build | Some s \<Rightarrow> Some s)\<rparr>"

text \<open>\<^verbatim>\<open>transitionToPhase\<close>: a fresh update with phase, reason and message set.\<close>

definition transitionToPhase :: "BuildPhase \<Rightarrow> StatusReason \<Rightarrow> StatusMessage \<Rightarrow> buildUpdate" where
  "transitionToPhase p r m = setMessage m (setReason r (setPhase p emptyUpdate))"

subsection \<open>Errors and events\<close>

text \<open>
  The errors the controller tells apart. \<open>NotFound\<close> is an API status error for which
  \<^verbatim>\<open>errors.IsNotFound\<close> holds, \<open>FieldNotFound\<close> a \<^verbatim>\<open>field.Error\<close> of type
  \<^verbatim>\<open>ErrorTypeNotFound\<close>, \<open>Aggregate\<close> a \<^verbatim>\<open>utilerrors.Aggregate\<close>; the two marker
  errors are the package variables of the same names; \<open>Errorf\<close> is any other error,
  with its text.
\<close>

datatype error =
    NotFound
  | FieldNotFound
  | errInvalidImageReferences
  | errNoIntegratedRegistry
  | Aggregate "error list"
  | Errorf string

fun IsNotFound :: "error \<Rightarrow> bool" where
  "IsNotFound NotFound = True"
| "IsNotFound _ = False"

fun IsFieldNotFound :: "error \<Rightarrow> bool" where
  "IsFieldNotFound FieldNotFound = True"
| "IsFieldNotFound _ = False"

text \<open>
  \<^verbatim>\<open>hasError\<close> on a non-nil error: an aggregate matches when one of its errors
  does, any other error when one of the functions holds of it.
\<close>

fun hasError :: "error \<Rightarrow> (error \<Rightarrow> bool) list \<Rightarrow> bool" where
  "hasError (Aggregate errs) fns = (\<exists>e \<in> set errs. hasError e fns)"
| "hasError err fns = (\<exists>fn \<in> set fns. fn err)"

datatype EventType = EventTypeNormal | EventTypeWarning

text \<open>The reasons of the events that the controller records.\<close>

datatype EventReason =
    InvalidOutput
  | FailedCreate
  | BuildStartedEventReason
  | BuildCancelledEventReason
  | BuildCompletedEventReason
  | BuildFailedEventReason

subsection \<open>The controller's mutable state\<close>

text \<open>
  What a reconciliation changes. \<open>buildQueue\<close> and \<open>buildConfigQueue\<close> hold the keys
  that wait in the two work queues, oldest first.
  \<open>recorded\<close> lists the events given to the recorder, \<open>patched\<close> the calls of the
  patch client (the Build and the update applied to it), \<open>created\<close> the pods whose
  creation was requested and \<open>deleted\<close> those whose deletion was requested (namespace
  and name), \<open>pruned\<close> the calls of the pruning collaborator (build config name and
  namespace), and \<open>updateBuild_calls\<close> counts the calls of \<^verbatim>\<open>updateBuild\<close>.
\<close>

record Controller =
  imageStreamQueue :: resourceTriggerQueue
  buildQueue :: "string list"
  buildConfigQueue :: "string list"
  recorded :: "(EventType \<times> EventReason) list"
  patched :: "(Build \<times> buildUpdate) list"
  created :: "(string \<times> string) list"
  deleted :: "(string \<times> string) list"
  pruned :: "(string \<times> string) list"
  updateBuild_calls :: nat

definition newController :: Controller where
  "newController =
     \<lparr>imageStreamQueue = newResourceTriggerQueue, buildQueue = [], buildConfigQueue = [],
      recorded = [], patched = [], created = [], deleted = [], pruned = [],
      updateBuild_calls = 0\<rparr>"

text \<open>
  Modelled from the spec: the work queues are objects of the client library, declared
  outside this file. They have de-duplication semantics: enqueueing a key already
  present coalesces. \<open>workqueue_Add\<close> is the \<^verbatim>\<open>Add\<close> of such a queue on the keys that
  wait in it.
\<close>

definition workqueue_Add :: "string \<Rightarrow> string list \<Rightarrow> string list" where
  "workqueue_Add key queue = (if key \<in> set queue then queue else queue @ [key])"

definition buildQueue_Add :: "string \<Rightarrow> Controller \<Rightarrow> Controller" where
  "buildQueue_Add key c = c\<lparr>buildQueue := workqueue_Add key (buildQueue c)\<rparr>"

definition buildConfigQueue_Add :: "string \<Rightarrow> Controller \<Rightarrow> Controller" where
  "buildConfigQueue_Add key c =
     c\<lparr>buildConfigQueue := workqueue_Add key (buildConfigQueue c)\<rparr>"

definition Eventf :: "EventType \<Rightarrow> EventReason \<Rightarrow> Controller \<Rightarrow> Controller" where
  "Eventf eventtype r c = c\<lparr>recorded := recorded c @ [(eventtype, r)]\<rparr>"

subsection \<open>Image stream events\<close>

text \<open>The loop of \<^verbatim>\<open>imageStreamAdded\<close> over the popped keys.\<close>

fun enqueueAll :: "string list \<Rightarrow> Controller \<Rightarrow> Controller" where
  "enqueueAll [] c = c"
| "enqueueAll (buildKey # rest) c = enqueueAll rest (buildQueue_Add buildKey c)"

definition imageStreamAdded :: "string \<Rightarrow> string \<Rightarrow> Controller \<Rightarrow> Controller" where
  "imageStreamAdded stream_namespace stream_name c =
     (let (popped, q) = Pop (resourceName stream_namespace stream_name) (imageStreamQueue c)
      in enqueueAll popped (c\<lparr>imageStreamQueue := q\<rparr>))"

definition imageStreamUpdated :: "string \<Rightarrow> string \<Rightarrow> Controller \<Rightarrow> Controller" where
  "imageStreamUpdated cur_namespace cur_name c = imageStreamAdded cur_namespace cur_name c"

subsection \<open>Completion data\<close>

definition maxExcerptLength :: nat where
  "maxExcerptLength = 5"

text \<open>
  The body of the loop over the excerpt in \<^verbatim>\<open>setBuildCompletionData\<close>:
  \<^verbatim>\<open>line[:58] + "..." + line[len(line)-59:]\<close> for a line of more than 120 bytes.
\<close>

definition elide :: "string \<Rightarrow> string" where
  "elide line =
     (if length line > 120 then take 58 line @ ''...'' @ drop (length line - 59) line
      else line)"

text \<open>
  The excerpt that \<^verbatim>\<open>setBuildCompletionData\<close> computes from a non-empty
  termination message, from \<^verbatim>\<open>strings.Split\<close> to \<^verbatim>\<open>strings.Join\<close>.
\<close>

definition excerptOf :: "string \<Rightarrow> string" where
  "excerptOf msg =
     (let parts = Split (TrimRight msg [CHR 0x0A]) (CHR 0x0A);
          excerptLength =
            (if length parts < maxExcerptLength then length parts else maxExcerptLength);
          excerpt = drop (length parts - excerptLength) parts
      in Join (map elide excerpt) [CHR 0x0A])"

text \<open>
  \<^verbatim>\<open>setBuildCompletionData\<close>; \<open>now\<close> is the reading of the clock taken at its
  first line. The update is returned instead of being changed in place.
\<close>

definition setBuildCompletionData :: "Time \<Rightarrow> Build \<Rightarrow> Pod option \<Rightarrow> buildUpdate \<Rightarrow> buildUpdate" where
  "setBuildCompletionData now build pod update =
     (let (startTime_used, update1) =
            (case StartTimestamp build of
               Some t \<Rightarrow> (t, update)
             | None \<Rightarrow>
                 (let podStart = (case pod of Some p \<Rightarrow> pod_StartTime p | None \<Rightarrow> None);
                      t = (case podStart of Some t \<Rightarrow> t | None \<Rightarrow> now)
                  in (t, setStartTime t update)));
          update2 =
            (if CompletionTimestamp build = None
             then setDuration (Sub (Rfc3339Copy now) (Rfc3339Copy startTime_used))
                    (setCompletionTime now update1)
             else update1)
      in if (Phase build = BuildPhaseFailed \<or> phase update2 = Some BuildPhaseFailed)
            \<and> length (LogSnippet build) = 0
         then (case pod of
                 None \<Rightarrow> update2
               | Some p \<Rightarrow>
                   (case pod_ContainerStatuses p of
                      [] \<Rightarrow> update2
                    | c # _ \<Rightarrow>
                        (case Terminated c of
                           None \<Rightarrow> update2
                         | Some terminated \<Rightarrow>
                             (let msg = Message terminated
                              in if length msg \<noteq> 0
                                 then setLogSnippet (excerptOf msg) update2
                                 else update2))))
         else update2)"

subsection \<open>Collaborators\<close>

text \<open>
  The controller reads the cluster through listers and clients and calls helpers of
  other packages. Their answers are the fields of \<open>Cluster\<close>: a lookup returns the
  object or an error, a helper returns what it computes. \<open>clock_Now\<close> is the reading
  of \<^verbatim>\<open>metav1.Now()\<close>. \<open>policy_IsRunnable\<close> is \<open>None\<close> when \<^verbatim>\<open>policy.ForBuild\<close>
  finds no run policy, otherwise the result of \<^verbatim>\<open>IsRunnable\<close>.
  \<open>SplitImageStreamImage\<close> and \<open>SplitImageStreamTag\<close> answer with the stream name
  and the image id or tag, or with \<open>None\<close> when the name does not split.
  \<open>ParseDockerImageReference_Exact\<close> parses a repository, sets the tag and prints
  the exact reference. \<open>fieldErrorOrInternal\<close> is the field error that the build
  mutator makes of an error. \<open>secretStore_Get\<close> keeps the error of the lookup only.
  \<open>createBuildPod_remainder\<close> stands for the second part of \<^verbatim>\<open>createBuildPod\<close>,
  after the image references have been resolved: the lookup of secrets, the strategy's
  pod spec and the creation of the pod and its CA config map, all of them calls to
  collaborators. It answers with the update and error that \<^verbatim>\<open>createBuildPod\<close>
  returns, the events it records and the pods it asks the pod client to create.
\<close>

record ImageStream =
  stream_Name :: string
  DockerImageRepository :: string

record Cluster =
  clock_Now :: Time
  GetBuildPodName :: "Build \<Rightarrow> string"
  ConfigNameForBuild :: "Build \<Rightarrow> string"
  HasOwnerReference :: "Pod \<Rightarrow> Build \<Rightarrow> bool"
  podStore_Get :: "string \<Rightarrow> string \<Rightarrow> error + Pod"
  podClient_Get :: "string \<Rightarrow> string \<Rightarrow> error + Pod"
  podClient_Delete :: "string \<Rightarrow> string \<Rightarrow> error option"
  secretStore_Get :: "string \<Rightarrow> string \<Rightarrow> error option"
  imageStreamStore_Get :: "string \<Rightarrow> string \<Rightarrow> error + ImageStream"
  SplitImageStreamImage :: "string \<Rightarrow> (string \<times> string) option"
  SplitImageStreamTag :: "string \<Rightarrow> (string \<times> string) option"
  ParseDockerImageReference_Exact :: "string \<Rightarrow> string \<Rightarrow> error + string"
  ResolveImageID :: "ImageStream \<Rightarrow> string \<Rightarrow> error + string"
  ResolveLatestTaggedImage :: "ImageStream \<Rightarrow> string \<Rightarrow> string option"
  fieldErrorOrInternal :: "error \<Rightarrow> error"
  policy_IsRunnable :: "Build \<Rightarrow> (bool \<times> error option) option"
  createBuildPod_remainder ::
    "Build \<Rightarrow> buildUpdate \<Rightarrow>
       buildUpdate option \<times> error option \<times> (EventType \<times> EventReason) list
         \<times> (string \<times> string) list"
  createBuildPatch :: "Build \<Rightarrow> Build \<Rightarrow> error + string"
  Patch :: "string \<Rightarrow> string \<Rightarrow> string \<Rightarrow> error + Build"

subsection \<open>Active builds\<close>

text \<open>\<^verbatim>\<open>findMissingPod\<close>: one direct fetch; any error means no pod.\<close>

definition findMissingPod :: "Cluster \<Rightarrow> Build \<Rightarrow> Pod option" where
  "findMissingPod cl build =
     (case podClient_Get cl (Namespace build) (GetBuildPodName cl build) of
        Inr pod \<Rightarrow> Some pod
      | Inl err \<Rightarrow> None)"

definition isOOMKilled :: "Pod option \<Rightarrow> bool" where
  "isOOMKilled pod =
     (case pod of
        None \<Rightarrow> False
      | Some p \<Rightarrow>
          if pod_Reason p = ''OOMKilled'' then True
          else if list_ex (\<lambda>c. case Terminated c of
                                  None \<Rightarrow> False
                                | Some terminated \<Rightarrow> Reason terminated = ''OOMKilled'')
                    (pod_InitContainerStatuses p) then True
          else if list_ex (\<lambda>c. case Terminated c of
                                  None \<Rightarrow> False
                                | Some terminated \<Rightarrow> Reason terminated = ''OOMKilled'')
                    (pod_ContainerStatuses p) then True
          else False)"

text \<open>
  The loop of \<^verbatim>\<open>handleActiveBuild\<close> over the init container statuses: each status
  of the git-clone container that reports running sets \<^verbatim>\<open>podPhase\<close> to running.
\<close>

fun initContainersPhase :: "ContainerStatus list \<Rightarrow> PodPhase \<Rightarrow> PodPhase" where
  "initContainersPhase [] podPhase = podPhase"
| "initContainersPhase (initContainer # rest) podPhase =
     initContainersPhase rest
       (if Name initContainer = GitCloneContainer \<and> Running initContainer
        then PodRunning else podPhase)"

text \<open>
  \<^verbatim>\<open>handleActiveBuild\<close>. The result is the update (\<open>None\<close> for nil) and the error,
  which is always nil.
\<close>

definition handleActiveBuild ::
  "Cluster \<Rightarrow> Build \<Rightarrow> Pod option \<Rightarrow> buildUpdate option \<times> error option" where
  "handleActiveBuild cl build pod =
     (case (case pod of None \<Rightarrow> findMissingPod cl build | Some p \<Rightarrow> Some p) of
        None \<Rightarrow>
          (Some (transitionToPhase BuildPhaseError StatusReasonBuildPodDeleted
                   StatusMessageBuildPodDeleted), None)
      | Some pod \<Rightarrow>
          (let podPhase =
                 (if Phase build = BuildPhasePending \<or> Phase build = BuildPhaseNew
                  then initContainersPhase (pod_InitContainerStatuses pod) (pod_Phase pod)
                  else pod_Phase pod);
               update =
                 (case podPhase of
                    PodPending \<Rightarrow>
                      (let update =
                             (if Phase build \<noteq> BuildPhasePending
                              then Some (transitionToPhase BuildPhasePending [] (Text []))
                              else None)
                       in case Output_PushSecret build of
                            None \<Rightarrow> update
                          | Some secret \<Rightarrow>
                              if status_Reason build \<noteq> StatusReasonMissingPushSecret
                              then (case secretStore_Get cl (Namespace build) secret of
                                      None \<Rightarrow> update
                                    | Some err \<Rightarrow>
                                        if IsNotFound err
                                        then Some (transitionToPhase BuildPhasePending
                                                     StatusReasonMissingPushSecret
                                                     StatusMessageMissingPushSecret)
                                        else update)
                              else update)
                  | PodRunning \<Rightarrow>
                      (if Phase build \<noteq> BuildPhaseRunning
                       then (let update = transitionToPhase BuildPhaseRunning [] (Text [])
                             in case pod_StartTime pod of
                                  None \<Rightarrow> Some update
                                | Some t \<Rightarrow> Some (setStartTime t update))
                       else None)
                  | PodSucceeded \<Rightarrow>
                      (let update =
                             (if Phase build \<noteq> BuildPhaseComplete
                              then Some (transitionToPhase BuildPhaseComplete [] (Text []))
                              else None)
                       in if length (pod_ContainerStatuses pod) = 0
                          then Some (transitionToPhase BuildPhaseError
                                       StatusReasonNoBuildContainerStatus
                                       StatusMessageNoBuildContainerStatus)
                          else if list_ex (\<lambda>info. case Terminated info of
                                                      None \<Rightarrow> False
                                                    | Some terminated \<Rightarrow> ExitCode terminated \<noteq> 0)
                                    (pod_ContainerStatuses pod)
                          then Some (transitionToPhase BuildPhaseError
                                       StatusReasonFailedContainer StatusMessageFailedContainer)
                          else update)
                  | PodFailed \<Rightarrow>
                      (if isOOMKilled (Some pod)
                       then Some (transitionToPhase BuildPhaseFailed
                                    StatusReasonOutOfMemoryKilled StatusMessageOutOfMemoryKilled)
                       else if Phase build \<noteq> BuildPhaseFailed
                       then (if pod_DeletionTimestamp pod \<noteq> None
                             then Some (transitionToPhase BuildPhaseError
                                          StatusReasonBuildPodDeleted StatusMessageBuildPodDeleted)
                             else Some (transitionToPhase BuildPhaseFailed
                                          StatusReasonGenericBuildFailed
                                          StatusMessageGenericBuildFailed))
                       else None)
                  | PodUnknown \<Rightarrow> None)
           in (update, None)))"

subsection \<open>Completed builds\<close>

definition handleCompletedBuild ::
  "Cluster \<Rightarrow> Build \<Rightarrow> Pod option \<Rightarrow> buildUpdate option \<times> error option" where
  "handleCompletedBuild cl build pod =
     (let update =
            (if isOOMKilled pod
             then transitionToPhase BuildPhaseFailed StatusReasonOutOfMemoryKilled
                    StatusMessageOutOfMemoryKilled
             else emptyUpdate)
      in (Some (setBuildCompletionData (clock_Now cl) build pod update), None))"

subsection \<open>Image references\<close>

text \<open>
  Modelled from the spec: \<^verbatim>\<open>imageapi.DefaultImageTag\<close> is declared outside this file;
  it is the tag \<^verbatim>\<open>latest\<close>.
\<close>

definition DefaultImageTag :: string where
  "DefaultImageTag = ''latest''"

text \<open>
  Modelled from the spec: the build mutator (\<^verbatim>\<open>imagereferencemutators.NewBuildMutator\<close>)
  is declared outside this file. It walks all image references inside a Build, here the
  input references and then the output reference, and hands each to a function; where
  the function answers with a reference, that reference replaces the old one; where it
  answers with an error, the reference stays and the error is collected as a field
  error.
\<close>

definition mutatorRefs :: "Build \<Rightarrow> ObjectReference list" where
  "mutatorRefs build =
     InputRefs build @ (case Output_To build of None \<Rightarrow> [] | Some ref \<Rightarrow> [ref])"

definition Mutate ::
  "Cluster \<Rightarrow> (ObjectReference \<Rightarrow> error + ObjectReference) \<Rightarrow> Build \<Rightarrow> error list \<times> Build" where
  "Mutate cl fn build =
     (let visit = (\<lambda>ref. case fn ref of Inl err \<Rightarrow> ref | Inr newRef \<Rightarrow> newRef);
          errs = concat (map (\<lambda>ref. case fn ref of
                                      Inl err \<Rightarrow> [fieldErrorOrInternal cl err]
                                    | Inr newRef \<Rightarrow> [])
                          (mutatorRefs build))
      in (errs, build\<lparr>InputRefs := map visit (InputRefs build),
                       Output_To := map_option visit (Output_To build)\<rparr>))"

text \<open>
  The function that \<^verbatim>\<open>unresolvedImageStreamReferences\<close> hands to the mutator: the
  stream names it appends for one reference, or its error.
\<close>

definition unresolvedStream :: "Cluster \<Rightarrow> string \<Rightarrow> ObjectReference \<Rightarrow> error + string list" where
  "unresolvedStream cl defaultNamespace ref =
     (let namespace =
            (if length (ref_Namespace ref) = 0 then defaultNamespace else ref_Namespace ref)
      in if Kind ref = ''ImageStreamImage''
         then (case SplitImageStreamImage cl (ref_Name ref) of
                 None \<Rightarrow> Inl errInvalidImageReferences
               | Some (name, imageID) \<Rightarrow> Inr [resourceName namespace name])
         else if Kind ref = ''ImageStreamTag''
         then (case SplitImageStreamTag cl (ref_Name ref) of
                 None \<Rightarrow> Inl errInvalidImageReferences
               | Some (name, tag) \<Rightarrow> Inr [resourceName namespace name])
         else Inr [])"

text \<open>
  \<^verbatim>\<open>unresolvedImageStreamReferences\<close>, on the references that the mutator walks: any
  error of the function gives \<^verbatim>\<open>errInvalidImageReferences\<close>, otherwise the streams
  appended, in order.
\<close>

definition unresolvedImageStreamReferences ::
  "Cluster \<Rightarrow> ObjectReference list \<Rightarrow> string \<Rightarrow> error + string list" where
  "unresolvedImageStreamReferences cl refs defaultNamespace =
     (let results = map (unresolvedStream cl defaultNamespace) refs;
          errs = concat (map (\<lambda>r. case r of Inl err \<Rightarrow> [err] | Inr streams \<Rightarrow> []) results)
      in if length errs > 0 then Inl errInvalidImageReferences
         else Inr (concat (map (\<lambda>r. case r of Inl err \<Rightarrow> [] | Inr streams \<Rightarrow> streams)
                             results)))"

definition resolveImageStreamLocation ::
  "Cluster \<Rightarrow> ObjectReference \<Rightarrow> string \<Rightarrow> error + string" where
  "resolveImageStreamLocation cl ref defaultNamespace =
     (let namespace =
            (if length (ref_Namespace ref) = 0 then defaultNamespace else ref_Namespace ref);
          parsed =
            (if Kind ref = ''ImageStreamImage''
             then (case SplitImageStreamImage cl (ref_Name ref) of
                     None \<Rightarrow> Inl errInvalidImageReferences
                   | Some (name, imageID) \<Rightarrow> Inr (name, DefaultImageTag))
             else if Kind ref = ''ImageStreamTag''
             then (case SplitImageStreamTag cl (ref_Name ref) of
                     None \<Rightarrow> Inl errInvalidImageReferences
                   | Some (name, tag) \<Rightarrow> Inr (name, tag))
             else if Kind ref = ''ImageStream'' then Inr (ref_Name ref, [])
             else Inr ([], []))
      in case parsed of
           Inl err \<Rightarrow> Inl err
         | Inr (name, tag) \<Rightarrow>
             (case imageStreamStore_Get cl namespace name of
                Inl err \<Rightarrow>
                  if IsNotFound err then Inl err
                  else Inl (Errorf ''the referenced output image stream could not be found'')
              | Inr stream \<Rightarrow>
                  if length (DockerImageRepository stream) = 0 then Inl errNoIntegratedRegistry
                  else (case ParseDockerImageReference_Exact cl (DockerImageRepository stream) tag of
                          Inl err \<Rightarrow>
                            Inl (Errorf ''the referenced output image stream does not represent a valid reference name'')
                        | Inr exact \<Rightarrow> Inr exact)))"

definition resolveImageStreamImage ::
  "Cluster \<Rightarrow> ObjectReference \<Rightarrow> string \<Rightarrow> error + ObjectReference" where
  "resolveImageStreamImage cl ref defaultNamespace =
     (let namespace =
            (if length (ref_Namespace ref) = 0 then defaultNamespace else ref_Namespace ref)
      in case SplitImageStreamImage cl (ref_Name ref) of
           None \<Rightarrow> Inl errInvalidImageReferences
         | Some (name, imageID) \<Rightarrow>
             (case imageStreamStore_Get cl namespace name of
                Inl err \<Rightarrow>
                  if IsNotFound err then Inl err
                  else Inl (Errorf ''the referenced image stream could not be found'')
              | Inr stream \<Rightarrow>
                  (case ResolveImageID cl stream imageID of
                     Inl err \<Rightarrow> Inl err
                   | Inr dockerImageReference \<Rightarrow>
                       if length dockerImageReference = 0
                       then Inl (Errorf ''the referenced image stream image does not have a pull spec'')
                       else Inr \<lparr>Kind = ''DockerImage'', ref_Namespace = [],
                                 ref_Name = dockerImageReference\<rparr>)))"

definition resolveImageStreamTag ::
  "Cluster \<Rightarrow> ObjectReference \<Rightarrow> string \<Rightarrow> error + ObjectReference" where
  "resolveImageStreamTag cl ref defaultNamespace =
     (let namespace =
            (if length (ref_Namespace ref) = 0 then defaultNamespace else ref_Namespace ref)
      in case SplitImageStreamTag cl (ref_Name ref) of
           None \<Rightarrow> Inl errInvalidImageReferences
         | Some (name, tag) \<Rightarrow>
             (case imageStreamStore_Get cl namespace name of
                Inl err \<Rightarrow>
                  if IsNotFound err then Inl err
                  else Inl (Errorf ''the referenced image stream could not be found'')
              | Inr stream \<Rightarrow>
                  (case ResolveLatestTaggedImage cl stream tag of
                     Some newRef \<Rightarrow>
                       Inr \<lparr>Kind = ''DockerImage'', ref_Namespace = [], ref_Name = newRef\<rparr>
                   | None \<Rightarrow>
                       Inl (Errorf ''the referenced image stream tag does not exist''))))"

text \<open>
  \<^verbatim>\<open>resolveOutputDockerImageReference\<close>: the error (\<open>None\<close> for nil) and the Build
  with its output reference rewritten.
\<close>

definition resolveOutputDockerImageReference :: "Cluster \<Rightarrow> Build \<Rightarrow> error option \<times> Build" where
  "resolveOutputDockerImageReference cl build =
     (case Output_To build of
        None \<Rightarrow> (None, build)
      | Some ref \<Rightarrow>
          if ref_Name ref = [] then (None, build)
          else if Kind ref = ''ImageStream'' \<or> Kind ref = ''ImageStreamTag''
          then (case resolveImageStreamLocation cl ref (Namespace build) of
                  Inl err \<Rightarrow> (Some err, build)
                | Inr newRef \<Rightarrow>
                    (None, build\<lparr>Output_To :=
                       Some \<lparr>Kind = ''DockerImage'', ref_Namespace = [], ref_Name = newRef\<rparr>\<rparr>))
          else (None, build))"

text \<open>The function of the second walk in \<^verbatim>\<open>resolveImageReferences\<close>.\<close>

definition resolveRemaining :: "Cluster \<Rightarrow> string \<Rightarrow> ObjectReference \<Rightarrow> error + ObjectReference" where
  "resolveRemaining cl defaultNamespace ref =
     (if Kind ref = ''ImageStreamImage'' then resolveImageStreamImage cl ref defaultNamespace
      else if Kind ref = ''ImageStreamTag'' then resolveImageStreamTag cl ref defaultNamespace
      else Inr ref)"

text \<open>
  \<^verbatim>\<open>resolveImageReferences\<close>: the error, the Build and the update as the function
  leaves them, and the controller's state.
\<close>

definition resolveImageReferences ::
  "Cluster \<Rightarrow> Build \<Rightarrow> buildUpdate \<Rightarrow> Controller
     \<Rightarrow> error option \<times> Build \<times> buildUpdate \<times> Controller" where
  "resolveImageReferences cl build update c =
     (case unresolvedImageStreamReferences cl (mutatorRefs build) (Namespace build) of
        Inl err \<Rightarrow> (Some err, build, update, c)
      | Inr streams \<Rightarrow>
          if length streams = 0 then (None, build, update, c)
          else
            (let buildKey = resourceName (Namespace build) (build_Name build);
                 c1 = c\<lparr>imageStreamQueue := Add buildKey streams (imageStreamQueue c)\<rparr>
             in case resolveOutputDockerImageReference cl build of
                  (Some err, build1) \<Rightarrow>
                    (let update1 = setMessage StatusMessageInvalidOutputRef
                                     (setReason StatusReasonInvalidOutputReference update);
                         c2 = (if err = errNoIntegratedRegistry
                               then Eventf EventTypeWarning InvalidOutput c1 else c1)
                     in (Some err, build1, update1, c2))
                | (None, build1) \<Rightarrow>
                    (let (errs, build2) =
                           Mutate cl (resolveRemaining cl (Namespace build1)) build1
                     in if length errs > 0
                        then (Some (Aggregate errs), build2,
                              setMessage StatusMessageInvalidImageRef
                                (setReason StatusReasonInvalidImageReference update),
                              c1)
                        else (None, build2, update,
                              c1\<lparr>imageStreamQueue :=
                                   Remove buildKey streams (imageStreamQueue c1)\<rparr>))))"

subsection \<open>New builds\<close>

text \<open>
  \<^verbatim>\<open>createBuildPod\<close>: the update, the error and the controller's state. The Build is
  a value, so the deep copy has no counterpart.
\<close>

definition createBuildPod ::
  "Cluster \<Rightarrow> Build \<Rightarrow> Controller \<Rightarrow> buildUpdate option \<times> error option \<times> Controller" where
  "createBuildPod cl build c =
     (case resolveImageReferences cl build emptyUpdate c of
        (Some err, build1, update, c1) \<Rightarrow>
          if hasError err [IsNotFound, IsFieldNotFound] then (Some update, None, c1)
          else (Some update, Some err, c1)
      | (None, build1, update, c1) \<Rightarrow>
          (case createBuildPod_remainder cl build1 update of
             (update1, err, events, pods) \<Rightarrow>
               (update1, err, c1\<lparr>recorded := recorded c1 @ events,
                                  created := created c1 @ pods\<rparr>)))"

definition handleNewBuild ::
  "Cluster \<Rightarrow> Build \<Rightarrow> Pod option \<Rightarrow> Controller
     \<Rightarrow> buildUpdate option \<times> error option \<times> Controller" where
  "handleNewBuild cl build pod c =
     (case pod of
        Some p \<Rightarrow>
          if HasOwnerReference cl p build
          then (case handleActiveBuild cl build (Some p) of (update, err) \<Rightarrow> (update, err, c))
          else (Some (transitionToPhase BuildPhaseError StatusReasonBuildPodExists
                        StatusMessageBuildPodExists), None, c)
      | None \<Rightarrow>
          (case policy_IsRunnable cl build of
             None \<Rightarrow> (None, Some (Errorf ''unable to determine build policy''), c)
           | Some (run, err) \<Rightarrow>
               if err \<noteq> None \<or> \<not> run then (None, err, c)
               else createBuildPod cl build c))"

subsection \<open>Cancellation\<close>

definition shouldCancel :: "Build \<Rightarrow> bool" where
  "shouldCancel build = (\<not> IsBuildComplete build \<and> Cancelled build)"

definition cancelBuild ::
  "Cluster \<Rightarrow> Build \<Rightarrow> Controller \<Rightarrow> buildUpdate option \<times> error option \<times> Controller" where
  "cancelBuild cl build c =
     (let podName = GetBuildPodName cl build;
          c1 = c\<lparr>deleted := deleted c @ [(Namespace build, podName)]\<rparr>
      in case podClient_Delete cl (Namespace build) podName of
           None \<Rightarrow>
             (Some (transitionToPhase BuildPhaseCancelled StatusReasonCancelledBuild
                      StatusMessageCancelledBuild), None, c1)
         | Some err \<Rightarrow>
             if \<not> IsNotFound err
             then (None, Some (Errorf ''could not delete build pod to cancel build''), c1)
             else (Some (transitionToPhase BuildPhaseCancelled StatusReasonCancelledBuild
                           StatusMessageCancelledBuild), None, c1))"

subsection \<open>Applying an update\<close>

text \<open>
  \<^verbatim>\<open>patchBuild\<close>: the desired Build is the original with the update applied; the
  patch computed from the two goes to the patch client. The result is the patched
  Build or the error.
\<close>

definition patchBuild ::
  "Cluster \<Rightarrow> Build \<Rightarrow> buildUpdate \<Rightarrow> Controller \<Rightarrow> (error + Build) \<times> Controller" where
  "patchBuild cl build update c =
     (let updatedBuild = apply_update update build
      in case createBuildPatch cl build updatedBuild of
           Inl err \<Rightarrow> (Inl (Errorf ''failed to create a build patch''), c)
         | Inr patch \<Rightarrow>
             (Patch cl (Namespace build) (build_Name build) patch,
              c\<lparr>patched := patched c @ [(build, update)]\<rparr>))"

definition enqueueBuildConfig :: "string \<Rightarrow> string \<Rightarrow> Controller \<Rightarrow> Controller" where
  "enqueueBuildConfig ns name c = buildConfigQueue_Add (resourceName ns name) c"

definition handleBuildCompletion :: "Cluster \<Rightarrow> Build \<Rightarrow> Controller \<Rightarrow> Controller" where
  "handleBuildCompletion cl build c =
     (let bcName = ConfigNameForBuild cl build;
          c1 = enqueueBuildConfig (Namespace build) bcName c
      in c1\<lparr>pruned := pruned c1 @ [(bcName, Namespace build)]\<rparr>)"

text \<open>
  \<^verbatim>\<open>updateBuild\<close>: the error (\<open>None\<close> for nil) and the controller's state. The events
  after the patch are those of the \<^verbatim>\<open>switch\<close> on the new phase.
\<close>

definition updateBuild ::
  "Cluster \<Rightarrow> Build \<Rightarrow> buildUpdate \<Rightarrow> Pod option \<Rightarrow> Controller \<Rightarrow> error option \<times> Controller" where
  "updateBuild cl build update pod c =
     (let c0 = c\<lparr>updateBuild_calls := Suc (updateBuild_calls c)\<rparr>;
          (stateTransition, update1) =
            (if phase update \<noteq> None \<and> phase update \<noteq> Some (Phase build) then (True, update)
             else if Phase build = BuildPhaseFailed \<and> completionTime update \<noteq> None
             then (True, setPhase BuildPhaseFailed update)
             else (False, update))
      in if stateTransition
            \<and> (case phase update1 of
                  None \<Rightarrow> False
                | Some p \<Rightarrow> \<not> isValidTransition (Phase build) p)
         then (Some (Errorf ''invalid phase transition''), c0)
         else
           (let update2 =
                  (if stateTransition
                      \<and> (case phase update1 of None \<Rightarrow> False | Some p \<Rightarrow> IsTerminalPhase p)
                   then setBuildCompletionData (clock_Now cl) build pod update1
                   else update1);
                update3 =
                  (case pod of
                     None \<Rightarrow> update2
                   | Some p \<Rightarrow>
                       if podNameAnnotation update2 = None \<and> \<not> HasBuildPodNameAnnotation build
                       then setPodNameAnnotation (pod_Name p) update2
                       else update2)
            in case patchBuild cl build update3 c0 of
                 (Inl err, c1) \<Rightarrow> (Some err, c1)
               | (Inr patchedBuild, c1) \<Rightarrow>
                   if stateTransition
                   then (let c2 =
                               (case phase update3 of
                                  Some BuildPhaseRunning \<Rightarrow>
                                    Eventf EventTypeNormal BuildStartedEventReason c1
                                | Some BuildPhaseCancelled \<Rightarrow>
                                    Eventf EventTypeNormal BuildCancelledEventReason c1
                                | Some BuildPhaseComplete \<Rightarrow>
                                    Eventf EventTypeNormal BuildCompletedEventReason c1
                                | Some BuildPhaseError \<Rightarrow>
                                    Eventf EventTypeNormal BuildFailedEventReason c1
                                | Some BuildPhaseFailed \<Rightarrow>
                                    Eventf EventTypeNormal BuildFailedEventReason c1
                                | _ \<Rightarrow> c1)
                         in if (case phase update3 of
                                  None \<Rightarrow> False
                                | Some p \<Rightarrow> IsTerminalPhase p)
                            then (None, handleBuildCompletion cl patchedBuild c2)
                            else (None, c2))
                   else (None, c1)))"

subsection \<open>The reconciler\<close>

definition shouldIgnore :: "Build \<Rightarrow> bool" where
  "shouldIgnore build =
     (if JenkinsPipelineStrategy build then True
      else if IsBuildComplete build
      then (case Phase build of
              BuildPhaseComplete \<Rightarrow> (if CompletionTimestamp build = None then False else True)
            | BuildPhaseFailed \<Rightarrow>
                (if CompletionTimestamp build = None \<or> length (LogSnippet build) = 0
                 then False else True)
            | _ \<Rightarrow> True)
      else False)"

text \<open>
  The \<^verbatim>\<open>switch\<close> of \<^verbatim>\<open>handleBuild\<close> that picks the handler: the first case that
  holds, in the order of the source; when none holds, update and error stay nil.
\<close>

definition handleBuild_switch ::
  "Cluster \<Rightarrow> Build \<Rightarrow> Pod option \<Rightarrow> Controller
     \<Rightarrow> buildUpdate option \<times> error option \<times> Controller" where
  "handleBuild_switch cl build pod c =
     (if shouldCancel build then cancelBuild cl build c
      else if Phase build = BuildPhaseNew then handleNewBuild cl build pod c
      else if Phase build = BuildPhasePending \<or> Phase build = BuildPhaseRunning
      then (case handleActiveBuild cl build pod of (update, err) \<Rightarrow> (update, err, c))
      else if IsBuildComplete build
      then (case handleCompletedBuild cl build pod of (update, err) \<Rightarrow> (update, err, c))
      else (None, None, c))"

text \<open>
  \<^verbatim>\<open>handleBuild\<close>. A pipeline Build that is complete is pruned, then ignored. The pod
  comes from the pod cache; not-found means no pod, any other error is returned.
\<close>

definition handleBuild :: "Cluster \<Rightarrow> Build \<Rightarrow> Controller \<Rightarrow> error option \<times> Controller" where
  "handleBuild cl build c =
     (let c1 = (if JenkinsPipelineStrategy build \<and> IsBuildComplete build
                then c\<lparr>pruned := pruned c @ [(ConfigNameForBuild cl build, Namespace build)]\<rparr>
                else c)
      in if shouldIgnore build then (None, c1)
         else
           (case (case podStore_Get cl (Namespace build) (GetBuildPodName cl build) of
                    Inr p \<Rightarrow> Inr (Some p)
                  | Inl podErr \<Rightarrow> if \<not> IsNotFound podErr then Inl podErr else Inr None) of
              Inl podErr \<Rightarrow> (Some podErr, c1)
            | Inr pod \<Rightarrow>
                (case handleBuild_switch cl build pod c1 of
                   (update, err, c2) \<Rightarrow>
                     (let (updateErr, c3) =
                            (case update of
                               None \<Rightarrow> (None, c2)
                             | Some u \<Rightarrow>
                                 if \<not> isEmpty u then updateBuild cl build u pod c2
                                 else (None, c2))
                      in if err \<noteq> None then (err, c3)
                         else if updateErr \<noteq> None then (updateErr, c3)
                         else (None, c3)))))"

subsection \<open>The log snippet in the words of the specification\<close>

text \<open>
  The specification describes the snippet as: trailing newlines trimmed, the last five
  lines kept, every kept line of more than 120 characters replaced by its first 58
  characters, three dots and its last 59 characters. These definitions follow that
  wording; they are compared with \<open>excerptOf\<close> below.
\<close>

function trimTrailingNewlines :: "string \<Rightarrow> string" where
  "trimTrailingNewlines s =
     (if s \<noteq> [] \<and> last s = CHR 0x0A then trimTrailingNewlines (butlast s) else s)"
  by pat_completeness auto
termination
  by (relation "measure length") auto

declare trimTrailingNewlines.simps [simp del]

definition lastN :: "nat \<Rightarrow> 'a list \<Rightarrow> 'a list" where
  "lastN n xs = rev (take n (rev xs))"

definition spec_elide :: "string \<Rightarrow> string" where
  "spec_elide line =
     (if 120 < length line then take 58 line @ ''...'' @ lastN 59 line else line)"

definition spec_logSnippet :: "string \<Rightarrow> string" where
  "spec_logSnippet msg =
     Join (map spec_elide (lastN 5 (Split (trimTrailingNewlines msg) (CHR 0x0A)))) [CHR 0x0A]"

text \<open>
  The start time that \<^verbatim>\<open>setBuildCompletionData\<close> measures the duration from: the
  Build's start timestamp, else the pod's start time, else the clock.
\<close>

definition startTime_used :: "Time \<Rightarrow> Build \<Rightarrow> Pod option \<Rightarrow> Time" where
  "startTime_used now build pod =
     (case StartTimestamp build of
        Some t \<Rightarrow> t
      | None \<Rightarrow>
          (case pod of
             None \<Rightarrow> now
           | Some p \<Rightarrow> (case pod_StartTime p of None \<Rightarrow> now | Some t \<Rightarrow> t)))"

subsection \<open>A small cluster\<close>

text \<open>
  Concrete objects for the examples below: the Build \<^verbatim>\<open>ns/b\<close> in phase \<open>New\<close>, its
  pod \<^verbatim>\<open>b-build\<close> in phase \<open>Pending\<close>, and a cluster in which every lookup answers
  not-found, the run policy lets every Build run, and every patch succeeds.
\<close>

definition exampleBuild :: Build where
  "exampleBuild =
     \<lparr>Namespace = ''ns'', build_Name = ''b'', PodNameAnnotation = None,
      JenkinsPipelineStrategy = False, InputRefs = [], Output_To = None,
      Output_PushSecret = None, Phase = BuildPhaseNew, Cancelled = False,
      status_Reason = [], status_Message = Text [], StartTimestamp = None,
      CompletionTimestamp = None, status_Duration = 0, OutputDockerImageReference = [],
      LogSnippet = []\<rparr>"

definition examplePod :: Pod where
  "examplePod =
     \<lparr>pod_Namespace = ''ns'', pod_Name = ''b-build'', pod_DeletionTimestamp = None,
      pod_Phase = PodPending, pod_Reason = [], pod_StartTime = None,
      pod_InitContainerStatuses = [], pod_ContainerStatuses = []\<rparr>"

definition exampleCluster :: Cluster where
  "exampleCluster =
     \<lparr>clock_Now = 5 * Second,
      GetBuildPodName = (\<lambda>build. build_Name build @ ''-build''),
      ConfigNameForBuild = (\<lambda>build. ''bc''),
      HasOwnerReference = (\<lambda>pod build. True),
      podStore_Get = (\<lambda>namespace name. Inl NotFound),
      podClient_Get = (\<lambda>namespace name. Inl NotFound),
      podClient_Delete = (\<lambda>namespace name. None),
      secretStore_Get = (\<lambda>namespace name. Some NotFound),
      imageStreamStore_Get = (\<lambda>namespace name. Inl NotFound),
      SplitImageStreamImage = (\<lambda>name. None),
      SplitImageStreamTag = (\<lambda>name. None),
      ParseDockerImageReference_Exact = (\<lambda>repository tag. Inr (repository @ '':'' @ tag)),
      ResolveImageID = (\<lambda>stream imageID. Inl NotFound),
      ResolveLatestTaggedImage = (\<lambda>stream tag. None),
      fieldErrorOrInternal = (\<lambda>err. if IsNotFound err then FieldNotFound else err),
      policy_IsRunnable = (\<lambda>build. Some (True, None)),
      createBuildPod_remainder =
        (\<lambda>build update.
           (Some (setPodNameAnnotation (build_Name build @ ''-build'')
                    (transitionToPhase BuildPhasePending [] (Text []))),
            None, [], [(Namespace build, build_Name build @ ''-build'')])),
      createBuildPatch = (\<lambda>older newer. Inr ''{}''),
      Patch = (\<lambda>namespace name patch. Inr exampleBuild)\<rparr>"

text \<open>
  A termination message of six lines, the third of them 200 characters long, followed
  by two newlines.
\<close>

definition exampleMessage :: string where
  "exampleMessage =
     ''a'' @ [CHR 0x0A] @ ''b'' @ [CHR 0x0A] @ replicate 200 (CHR ''x'') @ [CHR 0x0A]
     @ ''d'' @ [CHR 0x0A] @ ''e'' @ [CHR 0x0A] @ ''f'' @ [CHR 0x0A, CHR 0x0A]"

text \<open>
  The same cluster with the image stream \<^verbatim>\<open>ns/is\<close>, whose status names no
  repository because the integrated registry is not configured, and the Build with the
  output \<^verbatim>\<open>is:latest\<close>.
\<close>

definition registrylessCluster :: Cluster where
  "registrylessCluster =
     exampleCluster
       \<lparr>imageStreamStore_Get :=
          (\<lambda>namespace name.
             if namespace = ''ns'' \<and> name = ''is''
             then Inr \<lparr>stream_Name = ''is'', DockerImageRepository = []\<rparr>
             else Inl NotFound),
        SplitImageStreamTag :=
          (\<lambda>name. if name = ''is:latest'' then Some (''is'', ''latest'') else None)\<rparr>"

definition outputBuild :: Build where
  "outputBuild =
     exampleBuild
       \<lparr>Output_To :=
          Some \<lparr>Kind = ''ImageStreamTag'', ref_Namespace = [], ref_Name = ''is:latest''\<rparr>\<rparr>"

text \<open>
  The first cluster with the pod of the Build in the pod cache, still pending, and the
  Build already running.
\<close>

definition pendingPodCluster :: Cluster where
  "pendingPodCluster = exampleCluster\<lparr>podStore_Get := (\<lambda>namespace name. Inr examplePod)\<rparr>"

definition runningBuild :: Build where
  "runningBuild = exampleBuild\<lparr>Phase := BuildPhaseRunning\<rparr>"

section \<open>Properties\<close>

subsection \<open>Legal transitions\<close>

text \<open>
  Claim C1. For every pair of phases, \<open>isValidTransition from to\<close> holds exactly when
  the phases are equal, or \<open>from\<close> is not terminal, the pair is not Pending to New, and
  it is not Running to New or Pending.
\<close>

theorem isValidTransition_table:
  "isValidTransition from to =
     (from = to \<or>
      (\<not> from \<in> {BuildPhaseComplete, BuildPhaseFailed, BuildPhaseError, BuildPhaseCancelled}
       \<and> \<not> (from = BuildPhasePending \<and> to = BuildPhaseNew)
       \<and> \<not> (from = BuildPhaseRunning \<and> (to = BuildPhaseNew \<or> to = BuildPhasePending))))"
  by (cases "from"; cases to; simp add: isValidTransition_def)

subsection \<open>The trigger queue and image stream events\<close>

lemma distinct_workqueue_Add: "distinct queue \<Longrightarrow> distinct (workqueue_Add key queue)"
  by (simp add: workqueue_Add_def)

lemma set_workqueue_Add: "set (workqueue_Add key queue) = insert key (set queue)"
  by (auto simp: workqueue_Add_def)

lemma take_workqueue_Add: "take (length queue) (workqueue_Add key queue) = queue"
  by (simp add: workqueue_Add_def)

lemma length_workqueue_Add: "length queue \<le> length (workqueue_Add key queue)"
  by (simp add: workqueue_Add_def)

lemma imageStreamQueue_enqueueAll: "imageStreamQueue (enqueueAll ks c) = imageStreamQueue c"
  by (induction ks arbitrary: c) (simp_all add: buildQueue_Add_def)

lemma buildConfigQueue_enqueueAll: "buildConfigQueue (enqueueAll ks c) = buildConfigQueue c"
  by (induction ks arbitrary: c) (simp_all add: buildQueue_Add_def)

lemma distinct_enqueueAll:
  "distinct (buildQueue c) \<Longrightarrow> distinct (buildQueue (enqueueAll ks c))"
  by (induction ks arbitrary: c) (simp_all add: buildQueue_Add_def distinct_workqueue_Add)

lemma set_enqueueAll: "set (buildQueue (enqueueAll ks c)) = set (buildQueue c) \<union> set ks"
  by (induction ks arbitrary: c) (auto simp: buildQueue_Add_def set_workqueue_Add)

lemma length_enqueueAll: "length (buildQueue c) \<le> length (buildQueue (enqueueAll ks c))"
proof (induction ks arbitrary: c)
  case Nil
  then show ?case by simp
next
  case (Cons k ks)
  have "length (buildQueue c) \<le> length (buildQueue (buildQueue_Add k c))"
    by (simp add: buildQueue_Add_def length_workqueue_Add)
  also have "\<dots> \<le> length (buildQueue (enqueueAll ks (buildQueue_Add k c)))"
    by (rule Cons.IH)
  finally show ?case by simp
qed

lemma take_enqueueAll:
  "take (length (buildQueue c)) (buildQueue (enqueueAll ks c)) = buildQueue c"
proof (induction ks arbitrary: c)
  case Nil
  then show ?case by simp
next
  case (Cons k ks)
  let ?c1 = "buildQueue_Add k c"
  have le: "length (buildQueue c) \<le> length (buildQueue ?c1)"
    by (simp add: buildQueue_Add_def length_workqueue_Add)
  have "take (length (buildQueue c)) (buildQueue (enqueueAll ks ?c1))
          = take (length (buildQueue c))
              (take (length (buildQueue ?c1)) (buildQueue (enqueueAll ks ?c1)))"
    using le by (simp add: min_def)
  also have "\<dots> = take (length (buildQueue c)) (buildQueue ?c1)"
    by (simp only: Cons.IH)
  also have "\<dots> = buildQueue c"
    by (simp add: buildQueue_Add_def take_workqueue_Add)
  finally show ?case by simp
qed

lemma count_list_distinct: "distinct xs \<Longrightarrow> x \<in> set xs \<Longrightarrow> count_list xs x = 1"
  by (induction xs) (auto simp: count_list_0_iff)

text \<open>
  Claim C9. \<open>Pop\<close> returns the whole bucket of a key and removes it, so that a second
  \<open>Pop\<close>, or a \<open>Pop\<close> of a key never registered, yields the empty list. An image
  stream event pops the bucket of the stream and enqueues its keys: afterwards every
  Build key of the bucket waits in the build queue exactly once, also when it was
  registered several times or waited in the queue already; the keys that waited before
  keep their places, and no other key is added.
\<close>

theorem imageStreamAdded_enqueues_bucket:
  assumes "distinct (buildQueue c)"
  shows "fst (Pop key q) = bucket q key
   \<and> snd (Pop key q) = q(key := None)
   \<and> fst (Pop key (snd (Pop key q))) = []
   \<and> fst (Pop key newResourceTriggerQueue) = []
   \<and> imageStreamQueue (imageStreamAdded ns name c)
       = (imageStreamQueue c)(resourceName ns name := None)
   \<and> (\<forall>b \<in> set (bucket (imageStreamQueue c) (resourceName ns name)).
         count_list (buildQueue (imageStreamAdded ns name c)) b = 1)
   \<and> distinct (buildQueue (imageStreamAdded ns name c))
   \<and> set (buildQueue (imageStreamAdded ns name c))
       = set (buildQueue c) \<union> set (bucket (imageStreamQueue c) (resourceName ns name))
   \<and> take (length (buildQueue c)) (buildQueue (imageStreamAdded ns name c)) = buildQueue c
   \<and> imageStreamUpdated ns name c = imageStreamAdded ns name c"
proof -
  let ?popped = "bucket (imageStreamQueue c) (resourceName ns name)"
  let ?c0 = "c\<lparr>imageStreamQueue := (imageStreamQueue c)(resourceName ns name := None)\<rparr>"
  have added: "imageStreamAdded ns name c = enqueueAll ?popped ?c0"
    by (simp add: imageStreamAdded_def Pop_def)
  have d: "distinct (buildQueue (imageStreamAdded ns name c))"
    unfolding added using assms by (intro distinct_enqueueAll) simp
  have s: "set (buildQueue (imageStreamAdded ns name c)) = set (buildQueue c) \<union> set ?popped"
    unfolding added by (simp add: set_enqueueAll)
  have t: "take (length (buildQueue c)) (buildQueue (imageStreamAdded ns name c)) = buildQueue c"
    unfolding added using take_enqueueAll[of ?c0 ?popped] by simp
  have once: "\<forall>b \<in> set ?popped. count_list (buildQueue (imageStreamAdded ns name c)) b = 1"
  proof
    fix b
    assume "b \<in> set ?popped"
    then have "b \<in> set (buildQueue (imageStreamAdded ns name c))"
      using s by simp
    then show "count_list (buildQueue (imageStreamAdded ns name c)) b = 1"
      using d by (rule count_list_distinct[rotated])
  qed
  have q: "imageStreamQueue (imageStreamAdded ns name c)
       = (imageStreamQueue c)(resourceName ns name := None)"
    unfolding added by (simp add: imageStreamQueue_enqueueAll)
  have pop: "fst (Pop key q) = bucket q key" "snd (Pop key q) = q(key := None)"
    "fst (Pop key (snd (Pop key q))) = []" "fst (Pop key newResourceTriggerQueue) = []"
    by (simp_all add: Pop_def bucket_def newResourceTriggerQueue_def)
  show ?thesis
    using pop q once d s t by (simp add: imageStreamUpdated_def)
qed

text \<open>
  Two reconciliations of the Build \<^verbatim>\<open>ns/b\<close>, whose output stream \<^verbatim>\<open>ns/is\<close> has no
  repository yet, register it twice; the event for the stream leaves it in the build
  queue once.
\<close>

theorem imageStreamAdded_enqueues_bucket_witness:
  "distinct (buildQueue newController)
   \<and> bucket
        (imageStreamQueue
           (snd (snd (createBuildPod registrylessCluster outputBuild
              (snd (snd (createBuildPod registrylessCluster outputBuild newController)))))))
        ''ns/is'' = [''ns/b'', ''ns/b'']
   \<and> buildQueue
        (imageStreamAdded ''ns'' ''is''
           (snd (snd (createBuildPod registrylessCluster outputBuild
              (snd (snd (createBuildPod registrylessCluster outputBuild newController)))))))
      = [''ns/b'']
   \<and> count_list
        (buildQueue
           (imageStreamAdded ''ns'' ''is''
              (snd (snd (createBuildPod registrylessCluster outputBuild
                 (snd (snd (createBuildPod registrylessCluster outputBuild newController))))))))
        ''ns/b'' = 1"
proof -
  let ?c = "snd (snd (createBuildPod registrylessCluster outputBuild
              (snd (snd (createBuildPod registrylessCluster outputBuild newController)))))"
  have reg: "imageStreamQueue ?c
      = Add ''ns/b'' [''ns/is''] (Add ''ns/b'' [''ns/is''] newResourceTriggerQueue)"
    by (simp add: createBuildPod_def resolveImageReferences_def
        resolveOutputDockerImageReference_def resolveImageStreamLocation_def
        unresolvedImageStreamReferences_def unresolvedStream_def mutatorRefs_def
        outputBuild_def exampleBuild_def registrylessCluster_def exampleCluster_def
        resourceName_def newController_def Eventf_def setReason_def setMessage_def
        emptyUpdate_def Let_def)
  have queue: "buildQueue ?c = []"
    by (simp add: createBuildPod_def resolveImageReferences_def
        resolveOutputDockerImageReference_def resolveImageStreamLocation_def
        unresolvedImageStreamReferences_def unresolvedStream_def mutatorRefs_def
        outputBuild_def exampleBuild_def registrylessCluster_def exampleCluster_def
        resourceName_def newController_def Eventf_def setReason_def setMessage_def
        emptyUpdate_def Let_def)
  have d: "distinct (buildQueue ?c)"
    by (simp add: queue)
  have b: "bucket (imageStreamQueue ?c) ''ns/is'' = [''ns/b'', ''ns/b'']"
    by (simp add: reg bucket_def newResourceTriggerQueue_def)
  have evaluated: "buildQueue (imageStreamAdded ''ns'' ''is'' ?c) = [''ns/b'']"
    by (simp add: imageStreamAdded_def Pop_def resourceName_def b buildQueue_Add_def
        workqueue_Add_def queue)
  from imageStreamAdded_enqueues_bucket[OF d, of _ _ "''ns''" "''is''"] b
  have "count_list (buildQueue (imageStreamAdded ''ns'' ''is'' ?c)) ''ns/b'' = 1"
    by (simp add: resourceName_def)
  then show ?thesis
    using b evaluated by (simp add: newController_def)
qed

subsection \<open>Helper facts: build updates and completion data\<close>

lemmas update_defs = transitionToPhase_def setPhase_def setReason_def setMessage_def
  setStartTime_def setCompletionTime_def setDuration_def setLogSnippet_def
  setPodNameAnnotation_def setOutputRef_def setPushSecret_def emptyUpdate_def

lemma setBuildCompletionData_frame:
  "podNameAnnotation (setBuildCompletionData now build pod update) = podNameAnnotation update
   \<and> phase (setBuildCompletionData now build pod update) = phase update
   \<and> reason (setBuildCompletionData now build pod update) = reason update
   \<and> message (setBuildCompletionData now build pod update) = message update
   \<and> outputRef (setBuildCompletionData now build pod update) = outputRef update
   \<and> pushSecret (setBuildCompletionData now build pod update) = pushSecret update"
  by (simp add: setBuildCompletionData_def update_defs Let_def
      split: option.splits list.splits prod.splits)

lemma setBuildCompletionData_startTime:
  "startTime (setBuildCompletionData now build pod update) =
     (case StartTimestamp build of
        Some t \<Rightarrow> startTime update
      | None \<Rightarrow> Some (startTime_used now build pod))"
  by (simp add: setBuildCompletionData_def update_defs Let_def startTime_used_def
      split: option.splits list.splits prod.splits)

lemma setBuildCompletionData_completionTime:
  "completionTime (setBuildCompletionData now build pod update) =
     (if CompletionTimestamp build = None then Some now else completionTime update)"
  by (cases "StartTimestamp build"; cases pod; cases "CompletionTimestamp build")
    (simp_all add: setBuildCompletionData_def update_defs Let_def
      split: option.splits list.splits)

lemma setBuildCompletionData_duration:
  "duration (setBuildCompletionData now build pod update) =
     (if CompletionTimestamp build = None
      then Some (Sub (Rfc3339Copy now) (Rfc3339Copy (startTime_used now build pod)))
      else duration update)"
  by (cases "StartTimestamp build"; cases pod; cases "CompletionTimestamp build")
    (simp_all add: setBuildCompletionData_def update_defs Let_def startTime_used_def
      split: option.splits list.splits)

lemma setBuildCompletionData_logSnippet_eq:
  "logSnippet (setBuildCompletionData now build pod update) =
     (if (Phase build = BuildPhaseFailed \<or> phase update = Some BuildPhaseFailed)
         \<and> LogSnippet build = []
      then (case pod of
              None \<Rightarrow> logSnippet update
            | Some p \<Rightarrow>
                (case pod_ContainerStatuses p of
                   [] \<Rightarrow> logSnippet update
                 | c # _ \<Rightarrow>
                     (case Terminated c of
                        None \<Rightarrow> logSnippet update
                      | Some terminated \<Rightarrow>
                          if Message terminated \<noteq> [] then Some (excerptOf (Message terminated))
                          else logSnippet update)))
      else logSnippet update)"
  by (simp add: setBuildCompletionData_def update_defs Let_def
      split: option.splits list.splits prod.splits)

subsection \<open>Helper facts: splitting and joining lines\<close>

lemma Split_not_Nil: "Split s c \<noteq> []"
  by (induction s) (auto split: list.splits)

lemma Join_Cons_Cons: "Join ((a # p) # ps) sep = a # Join (p # ps) sep"
  by (cases ps) simp_all

lemma Join_Split: "Join (Split s c) [c] = s"
proof (induction s)
  case Nil
  then show ?case by simp
next
  case (Cons a s)
  then show ?case
    by (cases "Split s c") (auto simp: Split_not_Nil Join_Cons_Cons split: list.splits)
qed

lemma Split_parts_free: "p \<in> set (Split s c) \<Longrightarrow> c \<notin> set p"
  by (induction s arbitrary: p) (auto split: list.splits if_splits)

lemma Split_free: "c \<notin> set l \<Longrightarrow> Split l c = [l]"
  by (induction l) auto

lemma Split_append: "c \<notin> set l \<Longrightarrow> Split (l @ c # s) c = l # Split s c"
  by (induction l) auto

lemma Split_Join:
  "xs \<noteq> [] \<Longrightarrow> \<forall>p \<in> set xs. c \<notin> set p \<Longrightarrow> Split (Join xs [c]) c = xs"
proof (induction xs "[c]" rule: Join.induct)
  case 1
  then show ?case by simp
next
  case (2 part)
  then show ?case by (simp add: Split_free)
next
  case (3 part next_part parts)
  then show ?case by (simp add: Split_append)
qed

lemma TrimRight_snoc:
  "TrimRight (s @ [x]) [c] = (if x = c then TrimRight s [c] else s @ [x])"
  by (simp add: TrimRight_def)

lemma trimTrailingNewlines_TrimRight: "trimTrailingNewlines s = TrimRight s [CHR 0x0A]"
proof (induction s rule: rev_induct)
  case Nil
  show ?case by (simp add: trimTrailingNewlines.simps TrimRight_def)
next
  case (snoc x xs)
  then show ?case
    by (subst trimTrailingNewlines.simps) (simp add: TrimRight_snoc)
qed

lemma all_eq_replicate: "\<forall>x \<in> set xs. x = c \<Longrightarrow> xs = replicate (length xs) c"
  by (induction xs) auto

text \<open>Trimming removes a run of newlines at the end and nothing else.\<close>

lemma TrimRight_decomp:
  "s = TrimRight s [c] @ replicate (length s - length (TrimRight s [c])) c"
proof -
  let ?P = "\<lambda>x. x \<in> set [c]"
  have "rev s = takeWhile ?P (rev s) @ dropWhile ?P (rev s)"
    by simp
  then have "s = rev (dropWhile ?P (rev s)) @ rev (takeWhile ?P (rev s))"
    by (metis rev_append rev_rev_ident)
  moreover have "\<forall>x \<in> set (rev (takeWhile ?P (rev s))). x = c"
    by (auto dest: set_takeWhileD)
  then have "rev (takeWhile ?P (rev s)) = replicate (length (takeWhile ?P (rev s))) c"
    using all_eq_replicate[of "rev (takeWhile ?P (rev s))" c] by simp
  moreover have "length (takeWhile ?P (rev s)) = length s - length (TrimRight s [c])"
    unfolding TrimRight_def
    by (metis (no_types, lifting) add_diff_cancel_right' length_append length_rev
        takeWhile_dropWhile_id)
  ultimately show ?thesis
    unfolding TrimRight_def by metis
qed

lemma TrimRight_last: "TrimRight s [c] \<noteq> [] \<Longrightarrow> last (TrimRight s [c]) \<noteq> c"
  unfolding TrimRight_def
  by (metis (no_types, lifting) hd_dropWhile last_rev list.set_intros(1) rev_is_Nil_conv)

lemma lastN_drop: "lastN n xs = drop (length xs - n) xs"
  by (simp add: lastN_def rev_take)

lemma spec_elide_elide: "spec_elide line = elide line"
  by (simp add: spec_elide_def elide_def lastN_drop)

lemma excerptOf_lastN:
  "excerptOf msg =
     Join (map elide (lastN 5 (Split (TrimRight msg [CHR 0x0A]) (CHR 0x0A)))) [CHR 0x0A]"
  by (simp add: excerptOf_def lastN_drop maxExcerptLength_def Let_def)

text \<open>The excerpt of the code is the snippet of the specification.\<close>

lemma excerptOf_spec: "excerptOf msg = spec_logSnippet msg"
proof -
  have "map elide = map spec_elide"
    by (simp add: spec_elide_elide fun_eq_iff)
  then show ?thesis
    by (simp add: excerptOf_lastN spec_logSnippet_def trimTrailingNewlines_TrimRight)
qed

lemma elide_free: "CHR 0x0A \<notin> set l \<Longrightarrow> CHR 0x0A \<notin> set (elide l)"
  by (auto simp: elide_def dest: in_set_takeD in_set_dropD)

lemma Split_excerptOf:
  "Split (excerptOf msg) (CHR 0x0A) =
     map elide (lastN 5 (Split (TrimRight msg [CHR 0x0A]) (CHR 0x0A)))"
proof -
  let ?parts = "Split (TrimRight msg [CHR 0x0A]) (CHR 0x0A)"
  let ?kept = "map elide (lastN 5 ?parts)"
  have ne: "?kept \<noteq> []"
    using Split_not_Nil[of "TrimRight msg [CHR 0x0A]" "CHR 0x0A"]
    by (cases ?parts rule: rev_cases) (simp_all add: lastN_def)
  have "\<forall>p \<in> set ?kept. CHR 0x0A \<notin> set p"
    by (auto simp: lastN_drop dest!: in_set_dropD Split_parts_free elide_free)
  from Split_Join[OF ne this] show ?thesis
    by (simp add: excerptOf_lastN)
qed

subsection \<open>Helper facts: the handlers\<close>

lemma initContainersPhase_eq:
  "initContainersPhase ics podPhase =
     (if list_ex (\<lambda>ic. Name ic = GitCloneContainer \<and> Running ic) ics
      then PodRunning else podPhase)"
  by (induction ics arbitrary: podPhase) auto

subsection \<open>Active builds\<close>

text \<open>
  Claim C8. A Build in phase \<open>Pending\<close> or \<open>New\<close> whose pod reports phase \<open>Pending\<close>
  while its \<^verbatim>\<open>git-clone\<close> init container is running is moved to \<open>Running\<close>: the
  update carries the phase \<open>Running\<close> with empty reason and message and the pod's
  start time when the pod has one. The pod is the one passed in or, when none is
  passed, the one that \<open>findMissingPod\<close> fetches.
\<close>

theorem handleActiveBuild_git_clone_running:
  assumes "Phase build = BuildPhasePending \<or> Phase build = BuildPhaseNew"
    and "(case pod of None \<Rightarrow> findMissingPod cl build | Some p \<Rightarrow> Some p) = Some p"
    and "pod_Phase p = PodPending"
    and "\<exists>ic \<in> set (pod_InitContainerStatuses p). Name ic = GitCloneContainer \<and> Running ic"
  shows "handleActiveBuild cl build pod =
           (Some (emptyUpdate\<lparr>phase := Some BuildPhaseRunning, reason := Some [],
                    message := Some (Text []), startTime := pod_StartTime p\<rparr>), None)"
  using assms
  by (auto simp: handleActiveBuild_def initContainersPhase_eq list_ex_iff update_defs Let_def
      split: option.splits)

theorem handleActiveBuild_git_clone_running_witness:
  "handleActiveBuild exampleCluster exampleBuild
     (Some (examplePod\<lparr>pod_StartTime := Some 7, pod_InitContainerStatuses :=
        [\<lparr>Name = ''git-clone'', Running = True, Terminated = None\<rparr>]\<rparr>))
   = (Some (emptyUpdate\<lparr>phase := Some BuildPhaseRunning, reason := Some [],
              message := Some (Text []), startTime := Some 7\<rparr>), None)"
  using handleActiveBuild_git_clone_running[where cl = exampleCluster and build = exampleBuild
      and pod = "Some (examplePod\<lparr>pod_StartTime := Some 7, pod_InitContainerStatuses :=
        [\<lparr>Name = ''git-clone'', Running = True, Terminated = None\<rparr>]\<rparr>)"
      and p = "examplePod\<lparr>pod_StartTime := Some 7, pod_InitContainerStatuses :=
        [\<lparr>Name = ''git-clone'', Running = True, Terminated = None\<rparr>]\<rparr>"]
  by (simp add: exampleBuild_def examplePod_def GitCloneContainer_def)

text \<open>
  Claim C3 (as amended). For an active Build (phase \<open>Pending\<close> or \<open>Running\<close>) whose pod
  is in phase \<open>Failed\<close> with a deletion timestamp, \<open>handleActiveBuild\<close> produces the
  transition to \<open>Error\<close> with reason \<open>BuildPodDeleted\<close> unless the pod is OOM-killed;
  for an OOM-killed pod it produces \<open>Failed\<close> with reason \<open>OutOfMemoryKilled\<close>. For a
  \<open>Pending\<close> Build this needs that no \<^verbatim>\<open>git-clone\<close> init container reports running.
\<close>

theorem handleActiveBuild_pod_deleted:
  assumes "Phase build = BuildPhasePending \<or> Phase build = BuildPhaseRunning"
    and "(case pod of None \<Rightarrow> findMissingPod cl build | Some p \<Rightarrow> Some p) = Some p"
    and "pod_Phase p = PodFailed"
    and "pod_DeletionTimestamp p \<noteq> None"
    and "Phase build = BuildPhaseRunning \<or>
         \<not> list_ex (\<lambda>ic. Name ic = GitCloneContainer \<and> Running ic) (pod_InitContainerStatuses p)"
  shows "handleActiveBuild cl build pod =
           (Some (if isOOMKilled (Some p)
                  then transitionToPhase BuildPhaseFailed StatusReasonOutOfMemoryKilled
                         StatusMessageOutOfMemoryKilled
                  else transitionToPhase BuildPhaseError StatusReasonBuildPodDeleted
                         StatusMessageBuildPodDeleted), None)"
  using assms
  by (auto simp: handleActiveBuild_def initContainersPhase_eq Let_def split: option.splits)

theorem handleActiveBuild_pod_deleted_witness:
  "handleActiveBuild exampleCluster (exampleBuild\<lparr>Phase := BuildPhasePending\<rparr>)
     (Some (examplePod\<lparr>pod_Phase := PodFailed, pod_DeletionTimestamp := Some 1\<rparr>))
   = (Some (transitionToPhase BuildPhaseError StatusReasonBuildPodDeleted
              StatusMessageBuildPodDeleted), None)"
  using handleActiveBuild_pod_deleted[where cl = exampleCluster
      and build = "exampleBuild\<lparr>Phase := BuildPhasePending\<rparr>"
      and pod = "Some (examplePod\<lparr>pod_Phase := PodFailed, pod_DeletionTimestamp := Some 1\<rparr>)"
      and p = "examplePod\<lparr>pod_Phase := PodFailed, pod_DeletionTimestamp := Some 1\<rparr>"]
  by (simp add: exampleBuild_def examplePod_def isOOMKilled_def)

text \<open>
  The claim as first stated fails: a \<open>Running\<close> Build whose pod is \<open>Failed\<close>, carries a
  deletion timestamp and was OOM-killed goes to \<open>Failed\<close> with reason
  \<open>OutOfMemoryKilled\<close>, because the OOM test comes first.
\<close>

theorem handleActiveBuild_oom_counterexample:
  "Phase (exampleBuild\<lparr>Phase := BuildPhaseRunning\<rparr>) = BuildPhaseRunning
   \<and> pod_Phase (examplePod\<lparr>pod_Phase := PodFailed, pod_DeletionTimestamp := Some 1,
                   pod_Reason := ''OOMKilled''\<rparr>) = PodFailed
   \<and> pod_DeletionTimestamp (examplePod\<lparr>pod_Phase := PodFailed,
        pod_DeletionTimestamp := Some 1, pod_Reason := ''OOMKilled''\<rparr>) = Some 1
   \<and> handleActiveBuild exampleCluster (exampleBuild\<lparr>Phase := BuildPhaseRunning\<rparr>)
        (Some (examplePod\<lparr>pod_Phase := PodFailed, pod_DeletionTimestamp := Some 1,
                 pod_Reason := ''OOMKilled''\<rparr>))
      = (Some (transitionToPhase BuildPhaseFailed StatusReasonOutOfMemoryKilled
                 StatusMessageOutOfMemoryKilled), None)
   \<and> transitionToPhase BuildPhaseFailed StatusReasonOutOfMemoryKilled
        StatusMessageOutOfMemoryKilled
      \<noteq> transitionToPhase BuildPhaseError StatusReasonBuildPodDeleted
          StatusMessageBuildPodDeleted"
  by (simp add: handleActiveBuild_def exampleBuild_def examplePod_def isOOMKilled_def
      update_defs)

subsection \<open>Completed builds\<close>

text \<open>
  Claim C4 (as amended). \<open>handleCompletedBuild\<close> always returns an update and no error.
  The update never sets the pod-name annotation, the output reference or the push
  secret. When the pod is not OOM-killed it sets no phase, reason or message. When the
  pod is OOM-killed and the Build is \<open>Failed\<close> it sets the Build's own phase again,
  with reason \<open>OutOfMemoryKilled\<close> and its message. Besides that it fills the start
  time exactly when the Build has none, the completion time and the duration exactly
  when the Build has no completion timestamp, and a log snippet only for a \<open>Failed\<close>
  Build or an OOM-killed pod.
\<close>

theorem handleCompletedBuild_metadata:
  "\<exists>u. handleCompletedBuild cl build pod = (Some u, None)
     \<and> podNameAnnotation u = None \<and> outputRef u = None \<and> pushSecret u = None
     \<and> (\<not> isOOMKilled pod \<longrightarrow> phase u = None \<and> reason u = None \<and> message u = None)
     \<and> (isOOMKilled pod \<and> Phase build = BuildPhaseFailed \<longrightarrow>
          phase u = Some (Phase build) \<and> reason u = Some StatusReasonOutOfMemoryKilled
          \<and> message u = Some StatusMessageOutOfMemoryKilled)
     \<and> (startTime u \<noteq> None) = (StartTimestamp build = None)
     \<and> (completionTime u \<noteq> None) = (CompletionTimestamp build = None)
     \<and> (duration u \<noteq> None) = (CompletionTimestamp build = None)
     \<and> (logSnippet u = None \<or> Phase build = BuildPhaseFailed \<or> isOOMKilled pod)"
proof -
  define u0 where "u0 =
    (if isOOMKilled pod
     then transitionToPhase BuildPhaseFailed StatusReasonOutOfMemoryKilled
            StatusMessageOutOfMemoryKilled
     else emptyUpdate)"
  define u where "u = setBuildCompletionData (clock_Now cl) build pod u0"
  have res: "handleCompletedBuild cl build pod = (Some u, None)"
    by (simp add: handleCompletedBuild_def u_def u0_def)
  have u0: "podNameAnnotation u0 = None" "outputRef u0 = None" "pushSecret u0 = None"
    "startTime u0 = None" "completionTime u0 = None" "duration u0 = None"
    "logSnippet u0 = None"
    "phase u0 = (if isOOMKilled pod then Some BuildPhaseFailed else None)"
    "reason u0 = (if isOOMKilled pod then Some StatusReasonOutOfMemoryKilled else None)"
    "message u0 = (if isOOMKilled pod then Some StatusMessageOutOfMemoryKilled else None)"
    by (simp_all add: u0_def update_defs)
  have frame: "podNameAnnotation u = None" "outputRef u = None" "pushSecret u = None"
    "phase u = phase u0" "reason u = reason u0" "message u = message u0"
    by (simp_all add: u_def setBuildCompletionData_frame u0(1-3))
  have times: "(startTime u \<noteq> None) = (StartTimestamp build = None)"
    "(completionTime u \<noteq> None) = (CompletionTimestamp build = None)"
    "(duration u \<noteq> None) = (CompletionTimestamp build = None)"
    by (simp_all add: u_def setBuildCompletionData_startTime
        setBuildCompletionData_completionTime setBuildCompletionData_duration u0(4-6)
        split: option.splits)
  have snip: "logSnippet u = None \<or> Phase build = BuildPhaseFailed \<or> isOOMKilled pod"
    by (simp add: u_def setBuildCompletionData_logSnippet_eq u0(7,8))
  show ?thesis
    using res frame times snip by (simp add: u0(8-10))
qed

theorem handleCompletedBuild_metadata_witness:
  "(\<exists>u. handleCompletedBuild exampleCluster (exampleBuild\<lparr>Phase := BuildPhaseComplete\<rparr>)
          (Some examplePod) = (Some u, None)
      \<and> phase u = None \<and> reason u = None \<and> message u = None
      \<and> startTime u \<noteq> None \<and> completionTime u \<noteq> None \<and> duration u \<noteq> None
      \<and> logSnippet u = None)
   \<and> (\<exists>u. handleCompletedBuild exampleCluster (exampleBuild\<lparr>Phase := BuildPhaseFailed\<rparr>)
          (Some (examplePod\<lparr>pod_Phase := PodFailed, pod_Reason := ''OOMKilled''\<rparr>))
          = (Some u, None)
      \<and> phase u = Some BuildPhaseFailed \<and> reason u = Some StatusReasonOutOfMemoryKilled
      \<and> message u = Some StatusMessageOutOfMemoryKilled)"
  using handleCompletedBuild_metadata[of exampleCluster
      "exampleBuild\<lparr>Phase := BuildPhaseComplete\<rparr>" "Some examplePod"]
    handleCompletedBuild_metadata[of exampleCluster
      "exampleBuild\<lparr>Phase := BuildPhaseFailed\<rparr>"
      "Some (examplePod\<lparr>pod_Phase := PodFailed, pod_Reason := ''OOMKilled''\<rparr>)"]
  by (auto simp: exampleBuild_def examplePod_def isOOMKilled_def)

text \<open>
  The claim as first stated fails: for a \<open>Failed\<close> Build whose pod is OOM-killed the
  update is more than timestamps, duration and log snippet; it sets the phase, the
  reason and the message, and applied to the Build it replaces the Build's reason.
\<close>

theorem handleCompletedBuild_reason_counterexample:
  "IsBuildComplete (exampleBuild\<lparr>Phase := BuildPhaseFailed,
      status_Reason := StatusReasonGenericBuildFailed\<rparr>)
   \<and> map_option (\<lambda>u. (phase u, reason u, message u))
        (fst (handleCompletedBuild exampleCluster
           (exampleBuild\<lparr>Phase := BuildPhaseFailed,
              status_Reason := StatusReasonGenericBuildFailed\<rparr>)
           (Some (examplePod\<lparr>pod_Phase := PodFailed, pod_Reason := ''OOMKilled''\<rparr>))))
      = Some (Some BuildPhaseFailed, Some StatusReasonOutOfMemoryKilled,
              Some StatusMessageOutOfMemoryKilled)
   \<and> map_option (\<lambda>u. status_Reason (apply_update u
          (exampleBuild\<lparr>Phase := BuildPhaseFailed,
             status_Reason := StatusReasonGenericBuildFailed\<rparr>)))
        (fst (handleCompletedBuild exampleCluster
           (exampleBuild\<lparr>Phase := BuildPhaseFailed,
              status_Reason := StatusReasonGenericBuildFailed\<rparr>)
           (Some (examplePod\<lparr>pod_Phase := PodFailed, pod_Reason := ''OOMKilled''\<rparr>))))
      = Some StatusReasonOutOfMemoryKilled"
  by (simp add: handleCompletedBuild_def setBuildCompletionData_frame isOOMKilled_def
      IsBuildComplete_def exampleBuild_def examplePod_def update_defs apply_update_def)

text \<open>
  For a \<open>Complete\<close> Build whose pod is OOM-killed the update names the phase \<open>Failed\<close>,
  which is not a valid transition from \<open>Complete\<close>.
\<close>

lemma handleCompletedBuild_complete_oom:
  "map_option phase
     (fst (handleCompletedBuild exampleCluster (exampleBuild\<lparr>Phase := BuildPhaseComplete\<rparr>)
        (Some (examplePod\<lparr>pod_Phase := PodSucceeded, pod_Reason := ''OOMKilled''\<rparr>))))
     = Some (Some BuildPhaseFailed)
   \<and> \<not> isValidTransition BuildPhaseComplete BuildPhaseFailed"
  by (simp add: handleCompletedBuild_def setBuildCompletionData_frame isOOMKilled_def
      isValidTransition_def exampleBuild_def examplePod_def update_defs)

subsection \<open>Completion time and duration\<close>

lemma Rfc3339Copy_floor:
  "Rfc3339Copy t \<le> t \<and> t - Rfc3339Copy t < Second \<and> Rfc3339Copy t mod Second = 0"
proof -
  have "t = (t div Second) * Second + t mod Second"
    by simp
  moreover have "0 \<le> t mod Second" "t mod Second < Second"
    by (simp_all add: Second_def)
  ultimately show ?thesis
    unfolding Rfc3339Copy_def by (simp add: Second_def) presburger
qed

lemma Sub_in_range:
  "minDuration \<le> t - u \<Longrightarrow> t - u \<le> maxDuration \<Longrightarrow> Sub t u = t - u"
  by (simp add: Sub_def)

lemma Rfc3339Copy_mono: "t \<le> u \<Longrightarrow> Rfc3339Copy t \<le> Rfc3339Copy u"
  by (simp add: Rfc3339Copy_def Second_def zdiv_mono1)

lemma Sub_nonneg: "t \<le> u \<Longrightarrow> 0 \<le> Sub (Rfc3339Copy u) (Rfc3339Copy t)"
  using Rfc3339Copy_mono[of t u] by (simp add: Sub_def minDuration_def maxDuration_def)

text \<open>
  Claim C5 (as amended). \<open>setBuildCompletionData\<close> leaves completion time and duration
  of the update alone when the Build has a completion timestamp. When it has none, the
  completion time becomes the clock reading and the duration becomes the difference
  of clock reading and start time, both cut to whole seconds (and the difference kept
  within the range of a duration); the start time is the Build's start timestamp, else
  the pod's start time, else the clock reading. Applied to the Build, the update writes
  these values. The start time is not later than the completion time, and the duration
  not negative, when the start time used is not later than the clock reading, as it is
  when it is taken from the clock; a start timestamp of the Build or the pod is used
  as it is.
\<close>

theorem setBuildCompletionData_sets_completion:
  "(CompletionTimestamp build \<noteq> None \<longrightarrow>
      completionTime (setBuildCompletionData now build pod update) = completionTime update
      \<and> duration (setBuildCompletionData now build pod update) = duration update)
   \<and> (CompletionTimestamp build = None \<longrightarrow>
      completionTime (setBuildCompletionData now build pod update) = Some now
      \<and> duration (setBuildCompletionData now build pod update)
          = Some (Sub (Rfc3339Copy now) (Rfc3339Copy (startTime_used now build pod)))
      \<and> (minDuration \<le> Rfc3339Copy now - Rfc3339Copy (startTime_used now build pod)
           \<and> Rfc3339Copy now - Rfc3339Copy (startTime_used now build pod) \<le> maxDuration
           \<longrightarrow> duration (setBuildCompletionData now build pod update)
                = Some (Rfc3339Copy now - Rfc3339Copy (startTime_used now build pod)))
      \<and> CompletionTimestamp (apply_update (setBuildCompletionData now build pod update) build)
          = Some now
      \<and> status_Duration (apply_update (setBuildCompletionData now build pod update) build)
          = Sub (Rfc3339Copy now) (Rfc3339Copy (startTime_used now build pod))
      \<and> (startTime update = None \<longrightarrow>
           StartTimestamp (apply_update (setBuildCompletionData now build pod update) build)
             = Some (startTime_used now build pod))
      \<and> (StartTimestamp build = None \<and> (case pod of None \<Rightarrow> None | Some p \<Rightarrow> pod_StartTime p) = None
           \<longrightarrow> startTime_used now build pod = now)
      \<and> (startTime_used now build pod \<le> now \<longrightarrow>
           0 \<le> Sub (Rfc3339Copy now) (Rfc3339Copy (startTime_used now build pod))))"
  using Sub_nonneg[of "startTime_used now build pod" now]
  by (auto simp: setBuildCompletionData_completionTime setBuildCompletionData_duration
      setBuildCompletionData_startTime Sub_in_range apply_update_def
      split: option.splits)
    (auto simp: startTime_used_def split: option.splits)

theorem setBuildCompletionData_sets_completion_witness:
  "CompletionTimestamp (exampleBuild\<lparr>StartTimestamp := Some 2000000007\<rparr>) = None
   \<and> completionTime (setBuildCompletionData 5000000003
        (exampleBuild\<lparr>StartTimestamp := Some 2000000007\<rparr>) None emptyUpdate)
      = Some 5000000003
   \<and> duration (setBuildCompletionData 5000000003
        (exampleBuild\<lparr>StartTimestamp := Some 2000000007\<rparr>) None emptyUpdate)
      = Some (3 * Second)
   \<and> StartTimestamp (apply_update (setBuildCompletionData 5000000003 exampleBuild None emptyUpdate)
        exampleBuild) = Some 5000000003
   \<and> CompletionTimestamp (exampleBuild\<lparr>CompletionTimestamp := Some 1\<rparr>) \<noteq> None
   \<and> completionTime (setBuildCompletionData 5000000003
        (exampleBuild\<lparr>CompletionTimestamp := Some 1\<rparr>) None emptyUpdate) = None"
  using setBuildCompletionData_sets_completion[of "exampleBuild\<lparr>StartTimestamp := Some 2000000007\<rparr>"
      5000000003 None emptyUpdate]
    setBuildCompletionData_sets_completion[of exampleBuild 5000000003 None emptyUpdate]
    setBuildCompletionData_sets_completion[of "exampleBuild\<lparr>CompletionTimestamp := Some 1\<rparr>"
      5000000003 None emptyUpdate]
  by (simp add: exampleBuild_def startTime_used_def Rfc3339Copy_def Second_def Sub_def
      minDuration_def maxDuration_def emptyUpdate_def)

text \<open>
  The claim as first stated fails: a Build whose start timestamp (10 s) lies after the
  controller's clock (5 s) gets a completion time before its start time and a negative
  duration.
\<close>

theorem setBuildCompletionData_order_counterexample:
  "CompletionTimestamp (exampleBuild\<lparr>StartTimestamp := Some (10 * Second)\<rparr>) = None
   \<and> CompletionTimestamp
        (apply_update
           (setBuildCompletionData (5 * Second)
              (exampleBuild\<lparr>StartTimestamp := Some (10 * Second)\<rparr>) None emptyUpdate)
           (exampleBuild\<lparr>StartTimestamp := Some (10 * Second)\<rparr>))
      = Some (5 * Second)
   \<and> StartTimestamp
        (apply_update
           (setBuildCompletionData (5 * Second)
              (exampleBuild\<lparr>StartTimestamp := Some (10 * Second)\<rparr>) None emptyUpdate)
           (exampleBuild\<lparr>StartTimestamp := Some (10 * Second)\<rparr>))
      = Some (10 * Second)
   \<and> \<not> (10 * Second \<le> 5 * Second)
   \<and> status_Duration
        (apply_update
           (setBuildCompletionData (5 * Second)
              (exampleBuild\<lparr>StartTimestamp := Some (10 * Second)\<rparr>) None emptyUpdate)
           (exampleBuild\<lparr>StartTimestamp := Some (10 * Second)\<rparr>))
      = - 5 * Second"
  by (simp add: setBuildCompletionData_completionTime setBuildCompletionData_duration
      setBuildCompletionData_startTime apply_update_def startTime_used_def exampleBuild_def
      emptyUpdate_def Sub_def Rfc3339Copy_def Second_def minDuration_def maxDuration_def)

subsection \<open>The log snippet\<close>

text \<open>
  Claim C6. For a \<open>Failed\<close> Build with empty log snippet whose pod's first container
  has a non-empty termination message, the update's log snippet is the snippet of the
  specification: trailing newlines trimmed, the last five lines kept, every kept line
  of more than 120 characters replaced by its first 58 characters, three dots and its
  last 59 characters. Its lines are the kept lines after elision; a message of six
  lines gives a snippet of five lines; a line of 200 characters becomes its first 58
  characters, three dots and its last 59 characters, 120 characters in all.
\<close>

theorem setBuildCompletionData_derives_logSnippet:
  assumes "Phase build = BuildPhaseFailed"
    and "LogSnippet build = []"
    and "pod = Some p"
    and "pod_ContainerStatuses p = c # cs"
    and "Terminated c = Some terminated"
    and "Message terminated \<noteq> []"
  shows "logSnippet (setBuildCompletionData now build pod update)
           = Some (spec_logSnippet (Message terminated))
     \<and> Split (spec_logSnippet (Message terminated)) (CHR 0x0A)
         = map spec_elide
             (lastN 5 (Split (trimTrailingNewlines (Message terminated)) (CHR 0x0A)))
     \<and> (length (Split (trimTrailingNewlines (Message terminated)) (CHR 0x0A)) = 6 \<longrightarrow>
          length (Split (spec_logSnippet (Message terminated)) (CHR 0x0A)) = 5)
     \<and> (\<forall>line. length line = 200 \<longrightarrow>
          spec_elide line = take 58 line @ ''...'' @ drop 141 line
          \<and> length (spec_elide line) = 120)"
proof -
  have snip: "logSnippet (setBuildCompletionData now build pod update)
                = Some (spec_logSnippet (Message terminated))"
    using assms by (simp add: setBuildCompletionData_logSnippet_eq excerptOf_spec)
  have lines: "Split (spec_logSnippet (Message terminated)) (CHR 0x0A)
         = map spec_elide
             (lastN 5 (Split (trimTrailingNewlines (Message terminated)) (CHR 0x0A)))"
    using Split_excerptOf[of "Message terminated"]
    by (simp add: excerptOf_spec trimTrailingNewlines_TrimRight spec_elide_elide[abs_def])
  have six: "length (Split (trimTrailingNewlines (Message terminated)) (CHR 0x0A)) = 6 \<longrightarrow>
          length (Split (spec_logSnippet (Message terminated)) (CHR 0x0A)) = 5"
    by (simp add: lines lastN_drop)
  have long: "\<forall>line. length line = 200 \<longrightarrow>
          spec_elide line = take 58 line @ ''...'' @ drop 141 line
          \<and> length (spec_elide line) = 120"
    by (simp add: spec_elide_def lastN_drop)
  show ?thesis
    using snip lines six long by blast
qed

theorem setBuildCompletionData_derives_logSnippet_witness:
  "logSnippet
     (setBuildCompletionData 0 (exampleBuild\<lparr>Phase := BuildPhaseFailed\<rparr>)
        (Some (examplePod\<lparr>pod_Phase := PodFailed, pod_ContainerStatuses :=
           [\<lparr>Name = ''docker-build'', Running = False,
             Terminated = Some \<lparr>ExitCode = 1, Reason = ''Error'', Message = exampleMessage\<rparr>\<rparr>]\<rparr>))
        emptyUpdate)
     = Some (''b'' @ [CHR 0x0A] @ replicate 58 (CHR ''x'') @ ''...'' @ replicate 59 (CHR ''x'')
             @ [CHR 0x0A] @ ''d'' @ [CHR 0x0A] @ ''e'' @ [CHR 0x0A] @ ''f'')
   \<and> length (Split (trimTrailingNewlines exampleMessage) (CHR 0x0A)) = 6
   \<and> length (Split (spec_logSnippet exampleMessage) (CHR 0x0A)) = 5"
proof -
  let ?terminated = "\<lparr>ExitCode = 1, Reason = ''Error'', Message = exampleMessage\<rparr>"
  let ?c = "\<lparr>Name = ''docker-build'', Running = False, Terminated = Some ?terminated\<rparr>"
  let ?p = "examplePod\<lparr>pod_Phase := PodFailed, pod_ContainerStatuses := [?c]\<rparr>"
  let ?build = "exampleBuild\<lparr>Phase := BuildPhaseFailed\<rparr>"
  have evaluated: "spec_logSnippet exampleMessage
      = ''b'' @ [CHR 0x0A] @ replicate 58 (CHR ''x'') @ ''...'' @ replicate 59 (CHR ''x'')
             @ [CHR 0x0A] @ ''d'' @ [CHR 0x0A] @ ''e'' @ [CHR 0x0A] @ ''f''"
    by code_simp
  have six: "length (Split (trimTrailingNewlines exampleMessage) (CHR 0x0A)) = 6"
    by code_simp
  have h1: "Phase ?build = BuildPhaseFailed"
    by simp
  have h2: "LogSnippet ?build = []"
    by (simp add: exampleBuild_def)
  have h4: "pod_ContainerStatuses ?p = ?c # []"
    by simp
  have h5: "Terminated ?c = Some ?terminated"
    by simp
  have h6: "Message ?terminated \<noteq> []"
    by (simp add: exampleMessage_def)
  have msg: "Message ?terminated = exampleMessage"
    by simp
  note inst = setBuildCompletionData_derives_logSnippet[OF h1 h2 refl h4 h5 h6,
      where now = 0 and update = emptyUpdate, unfolded msg]
  from inst have "logSnippet (setBuildCompletionData 0 ?build (Some ?p) emptyUpdate)
      = Some (spec_logSnippet exampleMessage)"
    by blast
  moreover from inst six
  have "length (Split (spec_logSnippet exampleMessage) (CHR 0x0A)) = 5"
    by blast
  ultimately show ?thesis
    using six by (simp only: evaluated simp_thms)
qed

subsection \<open>Output references without an integrated registry\<close>

text \<open>
  Claim C2 (as amended). Take a Build whose image references are valid and name at least
  one image stream, and whose output reference (an \<^verbatim>\<open>ImageStream\<close> or an
  \<^verbatim>\<open>ImageStreamTag\<close>) names an image stream that exists but has an empty
  \<^verbatim>\<open>dockerImageRepository\<close>. Then \<open>createBuildPod\<close> registers the Build in the
  trigger queue, sets reason \<open>InvalidOutputReference\<close> and its message on the update,
  records the warning event \<open>InvalidOutput\<close>, and returns the update together with
  the error \<open>errNoIntegratedRegistry\<close>. The update sets no phase and no pod is
  created.
\<close>

theorem createBuildPod_no_integrated_registry:
  assumes "unresolvedImageStreamReferences cl (mutatorRefs build) (Namespace build) = Inr streams"
    and "streams \<noteq> []"
    and "Output_To build = Some ref"
    and "ref_Name ref \<noteq> []"
    and "(Kind ref = ''ImageStream'' \<and> name = ref_Name ref)
         \<or> (Kind ref = ''ImageStreamTag'' \<and> SplitImageStreamTag cl (ref_Name ref) = Some (name, tag))"
    and "imageStreamStore_Get cl
           (if length (ref_Namespace ref) = 0 then Namespace build else ref_Namespace ref) name
         = Inr stream"
    and "DockerImageRepository stream = []"
  shows "createBuildPod cl build c =
           (Some (emptyUpdate\<lparr>reason := Some StatusReasonInvalidOutputReference,
                    message := Some StatusMessageInvalidOutputRef\<rparr>),
            Some errNoIntegratedRegistry,
            c\<lparr>imageStreamQueue :=
                 Add (resourceName (Namespace build) (build_Name build)) streams
                   (imageStreamQueue c),
               recorded := recorded c @ [(EventTypeWarning, InvalidOutput)]\<rparr>)"
proof -
  have loc: "resolveImageStreamLocation cl ref (Namespace build) = Inl errNoIntegratedRegistry"
    using assms(5-7) by (auto simp: resolveImageStreamLocation_def Let_def)
  have out: "resolveOutputDockerImageReference cl build = (Some errNoIntegratedRegistry, build)"
    using assms(3-5) loc by (auto simp: resolveOutputDockerImageReference_def)
  have res: "resolveImageReferences cl build emptyUpdate c =
      (Some errNoIntegratedRegistry, build,
       setMessage StatusMessageInvalidOutputRef
         (setReason StatusReasonInvalidOutputReference emptyUpdate),
       Eventf EventTypeWarning InvalidOutput
         (c\<lparr>imageStreamQueue :=
              Add (resourceName (Namespace build) (build_Name build)) streams
                (imageStreamQueue c)\<rparr>))"
    using assms(1,2) out by (simp add: resolveImageReferences_def Let_def)
  show ?thesis
    unfolding createBuildPod_def res by (simp add: update_defs Eventf_def)
qed

theorem createBuildPod_no_integrated_registry_witness:
  "createBuildPod registrylessCluster outputBuild newController =
     (Some (emptyUpdate\<lparr>reason := Some StatusReasonInvalidOutputReference,
              message := Some StatusMessageInvalidOutputRef\<rparr>),
      Some errNoIntegratedRegistry,
      newController\<lparr>imageStreamQueue := Add ''ns/b'' [''ns/is''] newResourceTriggerQueue,
        recorded := [(EventTypeWarning, InvalidOutput)]\<rparr>)"
proof -
  let ?ref = "\<lparr>Kind = ''ImageStreamTag'', ref_Namespace = [], ref_Name = ''is:latest''\<rparr>"
  let ?stream = "\<lparr>stream_Name = ''is'', DockerImageRepository = []\<rparr>"
  have h1: "unresolvedImageStreamReferences registrylessCluster (mutatorRefs outputBuild)
              (Namespace outputBuild) = Inr [''ns/is'']"
    by (simp add: unresolvedImageStreamReferences_def unresolvedStream_def mutatorRefs_def
        outputBuild_def exampleBuild_def registrylessCluster_def resourceName_def)
  have h2: "[''ns/is''] \<noteq> []"
    by simp
  have h3: "Output_To outputBuild = Some ?ref"
    by (simp add: outputBuild_def)
  have h4: "ref_Name ?ref \<noteq> []"
    by simp
  have h5: "(Kind ?ref = ''ImageStream'' \<and> ''is'' = ref_Name ?ref)
         \<or> (Kind ?ref = ''ImageStreamTag''
             \<and> SplitImageStreamTag registrylessCluster (ref_Name ?ref) = Some (''is'', ''latest''))"
    by (simp add: registrylessCluster_def)
  have h6: "imageStreamStore_Get registrylessCluster
           (if length (ref_Namespace ?ref) = 0 then Namespace outputBuild else ref_Namespace ?ref)
           ''is'' = Inr ?stream"
    by (simp add: registrylessCluster_def outputBuild_def exampleBuild_def)
  have h7: "DockerImageRepository ?stream = []"
    by simp
  show ?thesis
    using createBuildPod_no_integrated_registry[OF h1 h2 h3 h4 h5 h6 h7, of newController]
    by (simp add: newController_def outputBuild_def exampleBuild_def resourceName_def)
qed

text \<open>
  The claim as first stated fails: the error that \<open>createBuildPod\<close> returns is not nil,
  and \<open>handleBuild\<close> returns the same error to the worker.
\<close>

theorem createBuildPod_error_counterexample:
  "Phase outputBuild = BuildPhaseNew
   \<and> fst (snd (createBuildPod registrylessCluster outputBuild newController))
      = Some errNoIntegratedRegistry
   \<and> fst (handleBuild registrylessCluster outputBuild newController)
      = Some errNoIntegratedRegistry"
  by (simp add: handleBuild_def handleBuild_switch_def handleNewBuild_def shouldIgnore_def
      shouldCancel_def IsBuildComplete_def createBuildPod_def resolveImageReferences_def
      resolveOutputDockerImageReference_def resolveImageStreamLocation_def
      unresolvedImageStreamReferences_def unresolvedStream_def mutatorRefs_def
      outputBuild_def exampleBuild_def registrylessCluster_def exampleCluster_def
      resourceName_def newController_def Eventf_def update_defs isEmpty_def
      updateBuild_def patchBuild_def Let_def)

subsection \<open>Helper facts: what the handlers leave alone\<close>

lemma resolveImageReferences_frame:
  "resolveImageReferences cl build update c = (err, build1, update1, c1) \<Longrightarrow>
     updateBuild_calls c1 = updateBuild_calls c \<and> patched c1 = patched c
     \<and> created c1 = created c"
  by (auto simp: resolveImageReferences_def Let_def Eventf_def
      split: sum.splits if_splits prod.splits option.splits)

lemma createBuildPod_frame:
  "createBuildPod cl build c = (update, err, c1) \<Longrightarrow>
     updateBuild_calls c1 = updateBuild_calls c \<and> patched c1 = patched c"
  by (auto simp: createBuildPod_def split: prod.splits option.splits if_splits
      dest!: resolveImageReferences_frame)

lemma cancelBuild_frame:
  "cancelBuild cl build c = (update, err, c1) \<Longrightarrow>
     updateBuild_calls c1 = updateBuild_calls c \<and> patched c1 = patched c"
  by (auto simp: cancelBuild_def Let_def split: option.splits if_splits)

lemma handleNewBuild_frame:
  "handleNewBuild cl build pod c = (update, err, c1) \<Longrightarrow>
     updateBuild_calls c1 = updateBuild_calls c \<and> patched c1 = patched c"
  by (auto simp: handleNewBuild_def split: option.splits if_splits prod.splits
      dest!: createBuildPod_frame)

lemma handleBuild_switch_frame:
  "handleBuild_switch cl build pod c = (update, err, c1) \<Longrightarrow>
     updateBuild_calls c1 = updateBuild_calls c \<and> patched c1 = patched c"
  by (auto simp: handleBuild_switch_def split: if_splits prod.splits
      dest!: cancelBuild_frame handleNewBuild_frame)

lemma patchBuild_effects:
  "patchBuild cl build update c = (r, c1) \<Longrightarrow>
     updateBuild_calls c1 = updateBuild_calls c
     \<and> (patched c1 = patched c \<and> (\<exists>e. r = Inl e) \<or> patched c1 = patched c @ [(build, update)])"
  by (auto simp: patchBuild_def Let_def split: sum.splits)

lemma handleBuildCompletion_frame:
  "updateBuild_calls (handleBuildCompletion cl build c) = updateBuild_calls c
   \<and> patched (handleBuildCompletion cl build c) = patched c"
  by (simp add: handleBuildCompletion_def enqueueBuildConfig_def buildConfigQueue_Add_def Let_def)

lemma Eventf_frame:
  "updateBuild_calls (Eventf t r c) = updateBuild_calls c \<and> patched (Eventf t r c) = patched c"
  by (simp add: Eventf_def)

subsection \<open>Helper facts: updateBuild\<close>

text \<open>
  The update that \<open>updateBuild\<close> hands to \<open>patchBuild\<close> when it does not reject the
  transition, and the test by which it rejects.
\<close>

lemma updateBuild_shape:
  obtains (rejected) p where "phase update = Some p" "p \<noteq> Phase build"
      "\<not> isValidTransition (Phase build) p"
      "updateBuild cl build update pod c =
         (Some (Errorf ''invalid phase transition''),
          c\<lparr>updateBuild_calls := Suc (updateBuild_calls c)\<rparr>)"
  | (patch) u2 r c1 c2 where
      "patchBuild cl build
         (case pod of
            None \<Rightarrow> u2
          | Some p \<Rightarrow>
              if podNameAnnotation u2 = None \<and> \<not> HasBuildPodNameAnnotation build
              then setPodNameAnnotation (pod_Name p) u2 else u2)
         (c\<lparr>updateBuild_calls := Suc (updateBuild_calls c)\<rparr>) = (r, c1)"
      "podNameAnnotation u2 = podNameAnnotation update"
      "updateBuild cl build update pod c
         = ((case r of Inl err \<Rightarrow> Some err | Inr patchedBuild \<Rightarrow> None), c2)"
      "updateBuild_calls c2 = updateBuild_calls c1" "patched c2 = patched c1"
      "\<not> (\<exists>p. phase update = Some p \<and> \<not> isValidTransition (Phase build) p)"
      "reason u2 = reason update" "message u2 = message update"
      "phase u2 =
         (if phase update = None \<and> Phase build = BuildPhaseFailed
             \<and> completionTime update \<noteq> None
          then Some BuildPhaseFailed else phase update)"
proof -
  let ?c0 = "c\<lparr>updateBuild_calls := Suc (updateBuild_calls c)\<rparr>"
  define st where "st =
    (if phase update \<noteq> None \<and> phase update \<noteq> Some (Phase build) then (True, update)
     else if Phase build = BuildPhaseFailed \<and> completionTime update \<noteq> None
     then (True, setPhase BuildPhaseFailed update)
     else (False, update))"
  obtain stateTransition update1 where st_eq: "st = (stateTransition, update1)"
    by (cases st)
  have ann1: "podNameAnnotation update1 = podNameAnnotation update"
    using st_eq by (auto simp: st_def setPhase_def split: if_splits)
  have text1: "reason update1 = reason update" "message update1 = message update"
    using st_eq by (auto simp: st_def setPhase_def split: if_splits)
  have phase1: "phase update1 =
      (if phase update = None \<and> Phase build = BuildPhaseFailed
          \<and> completionTime update \<noteq> None
       then Some BuildPhaseFailed else phase update)"
    using st_eq by (auto simp: st_def setPhase_def split: if_splits)
  show thesis
  proof (cases "stateTransition
            \<and> (case phase update1 of None \<Rightarrow> False
                | Some p \<Rightarrow> \<not> isValidTransition (Phase build) p)")
    case True
    then obtain p where p: "phase update1 = Some p" "\<not> isValidTransition (Phase build) p"
      by (auto split: option.splits)
    have ne: "p \<noteq> Phase build"
      using p(2) by (auto simp: isValidTransition_def)
    have ph: "phase update = Some p"
      using st_eq p True by (auto simp: st_def setPhase_def isValidTransition_def split: if_splits)
    have res: "updateBuild cl build update pod c
        = (Some (Errorf ''invalid phase transition''), ?c0)"
    proof -
      have cond: "(stateTransition
            \<and> (case phase update1 of None \<Rightarrow> False
                | Some p \<Rightarrow> \<not> isValidTransition (Phase build) p)) = True"
        using True by simp
      show ?thesis
        unfolding updateBuild_def st_def[symmetric]
        by (simp only: Let_def st_eq prod.case cond if_True)
    qed
    show ?thesis
      by (rule rejected[OF ph ne p(2) res])
  next
    case False
    define u2 where "u2 =
      (if stateTransition
          \<and> (case phase update1 of None \<Rightarrow> False | Some p \<Rightarrow> IsTerminalPhase p)
       then setBuildCompletionData (clock_Now cl) build pod update1 else update1)"
    define u3 where "u3 =
      (case pod of
         None \<Rightarrow> u2
       | Some p \<Rightarrow>
           if podNameAnnotation u2 = None \<and> \<not> HasBuildPodNameAnnotation build
           then setPodNameAnnotation (pod_Name p) u2 else u2)"
    obtain r c1 where pb: "patchBuild cl build u3 ?c0 = (r, c1)"
      by (cases "patchBuild cl build u3 ?c0")
    have ann2: "podNameAnnotation u2 = podNameAnnotation update"
      by (simp add: u2_def setBuildCompletionData_frame ann1)
    have unfolded: "updateBuild cl build update pod c =
      (case patchBuild cl build u3 ?c0 of
         (Inl err, c1) \<Rightarrow> (Some err, c1)
       | (Inr patchedBuild, c1) \<Rightarrow>
           if stateTransition
           then (let c2 =
                       (case phase u3 of
                          Some BuildPhaseRunning \<Rightarrow>
                            Eventf EventTypeNormal BuildStartedEventReason c1
                        | Some BuildPhaseCancelled \<Rightarrow>
                            Eventf EventTypeNormal BuildCancelledEventReason c1
                        | Some BuildPhaseComplete \<Rightarrow>
                            Eventf EventTypeNormal BuildCompletedEventReason c1
                        | Some BuildPhaseError \<Rightarrow>
                            Eventf EventTypeNormal BuildFailedEventReason c1
                        | Some BuildPhaseFailed \<Rightarrow>
                            Eventf EventTypeNormal BuildFailedEventReason c1
                        | _ \<Rightarrow> c1)
                 in if (case phase u3 of None \<Rightarrow> False | Some p \<Rightarrow> IsTerminalPhase p)
                    then (None, handleBuildCompletion cl patchedBuild c2)
                    else (None, c2))
           else (None, c1))"
    proof -
      have cond: "(stateTransition
            \<and> (case phase update1 of None \<Rightarrow> False
                | Some p \<Rightarrow> \<not> isValidTransition (Phase build) p)) = False"
        using False by simp
      show ?thesis
        unfolding updateBuild_def st_def[symmetric] u3_def u2_def
        by (simp only: Let_def st_eq prod.case cond if_False)
    qed
    have post: "fst (updateBuild cl build update pod c)
          = (case r of Inl err \<Rightarrow> Some err | Inr patchedBuild \<Rightarrow> None)
        \<and> updateBuild_calls (snd (updateBuild cl build update pod c)) = updateBuild_calls c1
        \<and> patched (snd (updateBuild cl build update pod c)) = patched c1"
    proof (cases r)
      case (Inl err)
      then show ?thesis
        unfolding unfolded pb by simp
    next
      case (Inr patchedBuild)
      show ?thesis
      proof (cases "phase u3")
        case None
        then show ?thesis
          unfolding unfolded pb Inr by (simp add: Let_def)
      next
        case (Some p)
        then show ?thesis
          unfolding unfolded pb Inr
          by (cases p) (simp_all add: Let_def handleBuildCompletion_frame Eventf_frame)
      qed
    qed
    obtain c2 where c2: "updateBuild cl build update pod c
         = ((case r of Inl err \<Rightarrow> Some err | Inr patchedBuild \<Rightarrow> None), c2)"
      "updateBuild_calls c2 = updateBuild_calls c1" "patched c2 = patched c1"
      using post by (cases "updateBuild cl build update pod c") auto
    have valid: "\<not> (\<exists>p. phase update = Some p \<and> \<not> isValidTransition (Phase build) p)"
    proof
      assume "\<exists>p. phase update = Some p \<and> \<not> isValidTransition (Phase build) p"
      then obtain p where p: "phase update = Some p" "\<not> isValidTransition (Phase build) p"
        by blast
      have "p \<noteq> Phase build"
        using p(2) by (auto simp: isValidTransition_def)
      then have "st = (True, update)"
        using p(1) by (simp add: st_def)
      then have "stateTransition" "update1 = update"
        using st_eq by simp_all
      then show False
        using False p by simp
    qed
    have text2: "reason u2 = reason update" "message u2 = message update"
      by (simp_all add: u2_def setBuildCompletionData_frame text1)
    have phase2: "phase u2 =
        (if phase update = None \<and> Phase build = BuildPhaseFailed
            \<and> completionTime update \<noteq> None
         then Some BuildPhaseFailed else phase update)"
      using phase1 by (simp add: u2_def setBuildCompletionData_frame)
    show ?thesis
      by (rule patch[OF pb[unfolded u3_def] ann2 c2 valid text2 phase2])
  qed
qed

subsection \<open>The pod-name annotation\<close>

text \<open>
  Claim C10. When \<open>updateBuild\<close> is called with a pod, it either returns an error
  without a patch, or it hands exactly one patch to the patch client; the update of
  that patch, applied to the Build, leaves the Build with a pod-name annotation, and
  when neither the Build nor the incoming update carries the annotation the update
  sets it to the pod's name.
\<close>

theorem updateBuild_pod_name_annotation:
  assumes "pod = Some p"
  shows "\<exists>u. (patched (snd (updateBuild cl build update pod c)) = patched c @ [(build, u)]
              \<or> (patched (snd (updateBuild cl build update pod c)) = patched c
                  \<and> fst (updateBuild cl build update pod c) \<noteq> None))
           \<and> PodNameAnnotation (apply_update u build) \<noteq> None
           \<and> (\<not> HasBuildPodNameAnnotation build \<and> podNameAnnotation update = None \<longrightarrow>
                podNameAnnotation u = Some (pod_Name p)
                \<and> PodNameAnnotation (apply_update u build) = Some (pod_Name p))"
proof (cases rule: updateBuild_shape[of update build cl pod c])
  case (rejected ph)
  let ?u = "setPodNameAnnotation (pod_Name p) update"
  have "patched (snd (updateBuild cl build update pod c)) = patched c
        \<and> fst (updateBuild cl build update pod c) \<noteq> None"
    by (simp add: rejected(4))
  moreover have "PodNameAnnotation (apply_update ?u build) = Some (pod_Name p)"
    "podNameAnnotation ?u = Some (pod_Name p)"
    by (simp_all add: apply_update_def setPodNameAnnotation_def)
  ultimately show ?thesis
    by (intro exI[of _ ?u]) simp
next
  case (patch u2 r c1 c2)
  let ?u = "if podNameAnnotation u2 = None \<and> \<not> HasBuildPodNameAnnotation build
            then setPodNameAnnotation (pod_Name p) u2 else u2"
  have pb: "patchBuild cl build ?u (c\<lparr>updateBuild_calls := Suc (updateBuild_calls c)\<rparr>) = (r, c1)"
    using patch(1) assms by simp
  from patchBuild_effects[OF pb]
  have "patched c2 = patched c @ [(build, ?u)]
        \<or> (patched c2 = patched c \<and> (\<exists>e. r = Inl e))"
    using patch(5) by auto
  then have eff: "patched (snd (updateBuild cl build update pod c)) = patched c @ [(build, ?u)]
        \<or> (patched (snd (updateBuild cl build update pod c)) = patched c
            \<and> fst (updateBuild cl build update pod c) \<noteq> None)"
    by (auto simp: patch(3))
  have carried: "PodNameAnnotation (apply_update ?u build) \<noteq> None"
    by (auto simp: apply_update_def setPodNameAnnotation_def HasBuildPodNameAnnotation_def
        split: option.splits)
  have named: "\<not> HasBuildPodNameAnnotation build \<and> podNameAnnotation update = None \<longrightarrow>
                podNameAnnotation ?u = Some (pod_Name p)
                \<and> PodNameAnnotation (apply_update ?u build) = Some (pod_Name p)"
    by (simp add: patch(2) apply_update_def setPodNameAnnotation_def)
  show ?thesis
    using eff carried named by (intro exI[of _ ?u]) blast
qed

theorem updateBuild_pod_name_annotation_witness:
  "patched (snd (updateBuild exampleCluster (exampleBuild\<lparr>Phase := BuildPhasePending\<rparr>)
       (transitionToPhase BuildPhaseRunning [] (Text []))
       (Some (examplePod\<lparr>pod_Phase := PodRunning\<rparr>)) newController))
     = [(exampleBuild\<lparr>Phase := BuildPhasePending\<rparr>,
         setPodNameAnnotation ''b-build'' (transitionToPhase BuildPhaseRunning [] (Text [])))]
   \<and> PodNameAnnotation
        (apply_update
           (setPodNameAnnotation ''b-build'' (transitionToPhase BuildPhaseRunning [] (Text [])))
           (exampleBuild\<lparr>Phase := BuildPhasePending\<rparr>))
      = Some ''b-build''"
  using updateBuild_pod_name_annotation[where cl = exampleCluster
      and build = "exampleBuild\<lparr>Phase := BuildPhasePending\<rparr>"
      and update = "transitionToPhase BuildPhaseRunning [] (Text [])"
      and pod = "Some (examplePod\<lparr>pod_Phase := PodRunning\<rparr>)"
      and p = "examplePod\<lparr>pod_Phase := PodRunning\<rparr>" and c = newController]
  by (simp add: updateBuild_def patchBuild_def apply_update_def isValidTransition_def
      HasBuildPodNameAnnotation_def exampleCluster_def exampleBuild_def examplePod_def
      newController_def Eventf_def update_defs Let_def)

subsection \<open>Recording the handler's update\<close>

lemma updateBuild_calls_Suc:
  "updateBuild_calls (snd (updateBuild cl build update pod c)) = Suc (updateBuild_calls c)"
proof (cases rule: updateBuild_shape[of update build cl pod c])
  case (rejected ph)
  then show ?thesis by simp
next
  case (patch u2 r c1 c2)
  from patchBuild_effects[OF patch(1)] show ?thesis
    by (simp add: patch(3,4))
qed

text \<open>
  \<open>handleBuild\<close> returns early, without a handler and without calling \<open>updateBuild\<close>,
  for a Build that is ignored and when the pod cache fails.
\<close>

lemma handleBuild_early_return:
  assumes "shouldIgnore build
           \<or> (\<exists>e. podStore_Get cl (Namespace build) (GetBuildPodName cl build) = Inl e
                  \<and> \<not> IsNotFound e)"
  shows "updateBuild_calls (snd (handleBuild cl build c)) = updateBuild_calls c
         \<and> patched (snd (handleBuild cl build c)) = patched c"
  using assms by (auto simp: handleBuild_def Let_def)

lemma patchBuild_result:
  "patchBuild cl build update c =
     (case createBuildPatch cl build (apply_update update build) of
        Inl err \<Rightarrow> (Inl (Errorf ''failed to create a build patch''), c)
      | Inr patch \<Rightarrow>
          (Patch cl (Namespace build) (build_Name build) patch,
           c\<lparr>patched := patched c @ [(build, update)]\<rparr>))"
  by (simp add: patchBuild_def Let_def)

text \<open>
  What one call of \<open>updateBuild\<close> does to the Build: nothing but an error for an
  invalid transition or a patch that cannot be created, one patch otherwise, with the
  phase, reason and message of the update.
\<close>

lemma updateBuild_patches:
  "if \<exists>p. phase update = Some p \<and> \<not> isValidTransition (Phase build) p
   then patched (snd (updateBuild cl build update pod c)) = patched c
        \<and> fst (updateBuild cl build update pod c) = Some (Errorf ''invalid phase transition'')
   else \<exists>u'. reason u' = reason update \<and> message u' = message update
        \<and> phase u' =
            (if phase update = None \<and> Phase build = BuildPhaseFailed
                \<and> completionTime update \<noteq> None
             then Some BuildPhaseFailed else phase update)
        \<and> (case createBuildPatch cl build (apply_update u' build) of
              Inl e \<Rightarrow>
                patched (snd (updateBuild cl build update pod c)) = patched c
                \<and> fst (updateBuild cl build update pod c)
                    = Some (Errorf ''failed to create a build patch'')
            | Inr patch \<Rightarrow>
                patched (snd (updateBuild cl build update pod c)) = patched c @ [(build, u')]
                \<and> fst (updateBuild cl build update pod c)
                    = (case Patch cl (Namespace build) (build_Name build) patch of
                         Inl e \<Rightarrow> Some e
                       | Inr patchedBuild \<Rightarrow> None))"
proof (cases rule: updateBuild_shape[of update build cl pod c])
  case (rejected p)
  then show ?thesis
    by auto
next
  case (patch u2 r c1 c2)
  define u3 where "u3 =
    (case pod of
       None \<Rightarrow> u2
     | Some p \<Rightarrow>
         if podNameAnnotation u2 = None \<and> \<not> HasBuildPodNameAnnotation build
         then setPodNameAnnotation (pod_Name p) u2 else u2)"
  have fields: "reason u3 = reason update" "message u3 = message update"
    "phase u3 =
       (if phase update = None \<and> Phase build = BuildPhaseFailed
           \<and> completionTime update \<noteq> None
        then Some BuildPhaseFailed else phase update)"
    using patch(7,8,9) by (auto simp: u3_def setPodNameAnnotation_def split: option.splits)
  have pb: "patchBuild cl build u3 (c\<lparr>updateBuild_calls := Suc (updateBuild_calls c)\<rparr>)
      = (r, c1)"
    using patch(1) by (simp add: u3_def)
  have "case createBuildPatch cl build (apply_update u3 build) of
          Inl e \<Rightarrow>
            patched (snd (updateBuild cl build update pod c)) = patched c
            \<and> fst (updateBuild cl build update pod c)
                = Some (Errorf ''failed to create a build patch'')
        | Inr patch \<Rightarrow>
            patched (snd (updateBuild cl build update pod c)) = patched c @ [(build, u3)]
            \<and> fst (updateBuild cl build update pod c)
                = (case Patch cl (Namespace build) (build_Name build) patch of
                     Inl e \<Rightarrow> Some e
                   | Inr patchedBuild \<Rightarrow> None)"
    using pb patch(3,5) unfolding patchBuild_result
    by (auto split: sum.splits)
  then have ex: "\<exists>u'. reason u' = reason update \<and> message u' = message update
        \<and> phase u' =
            (if phase update = None \<and> Phase build = BuildPhaseFailed
                \<and> completionTime update \<noteq> None
             then Some BuildPhaseFailed else phase update)
        \<and> (case createBuildPatch cl build (apply_update u' build) of
              Inl e \<Rightarrow>
                patched (snd (updateBuild cl build update pod c)) = patched c
                \<and> fst (updateBuild cl build update pod c)
                    = Some (Errorf ''failed to create a build patch'')
            | Inr patch \<Rightarrow>
                patched (snd (updateBuild cl build update pod c)) = patched c @ [(build, u')]
                \<and> fst (updateBuild cl build update pod c)
                    = (case Patch cl (Namespace build) (build_Name build) patch of
                         Inl e \<Rightarrow> Some e
                       | Inr patchedBuild \<Rightarrow> None))"
    using fields by (intro exI[of _ u3]) simp
  have cond: "(\<exists>p. phase update = Some p \<and> \<not> isValidTransition (Phase build) p) = False"
    using patch(6) by simp
  show ?thesis
    by (simp only: cond if_False) (rule ex)
qed

text \<open>
  Claim C7 (as amended). When \<open>handleBuild\<close> reaches a handler, with the pod that the
  cache holds (or none when the cache answers not-found), it calls \<open>updateBuild\<close>
  exactly once when the handler's update is non-nil and non-empty and not at all
  otherwise, whether or not the handler returned an error. A nil or empty update issues
  no patch. A non-empty update issues exactly one patch of the Build, which carries the
  reason and message of the update and its phase, unless \<open>updateBuild\<close> refuses it:
  when the phase of the update is not a valid transition from the phase of the Build,
  and when the patch cannot be created, no patch is issued and \<open>updateBuild\<close> returns
  an error. The result of \<open>handleBuild\<close> is the handler's error when it is non-nil,
  otherwise the error of \<open>updateBuild\<close>.
\<close>

theorem handleBuild_updateBuild_patch:
  assumes "\<not> shouldIgnore build"
    and "podStore_Get cl (Namespace build) (GetBuildPodName cl build) = lookup"
    and "(lookup = Inr p \<and> pod = Some p) \<or> (\<exists>e. lookup = Inl e \<and> IsNotFound e \<and> pod = None)"
    and "handleBuild_switch cl build pod c = (update, err, c2)"
  shows "updateBuild_calls (snd (handleBuild cl build c))
           = updateBuild_calls c + (if \<exists>u. update = Some u \<and> \<not> isEmpty u then 1 else 0)
     \<and> (case update of
          None \<Rightarrow> patched (snd (handleBuild cl build c)) = patched c
        | Some u \<Rightarrow>
            if isEmpty u then patched (snd (handleBuild cl build c)) = patched c
            else if \<exists>p. phase u = Some p \<and> \<not> isValidTransition (Phase build) p
            then patched (snd (handleBuild cl build c)) = patched c
                 \<and> fst (updateBuild cl build u pod c2)
                     = Some (Errorf ''invalid phase transition'')
            else \<exists>u'. reason u' = reason u \<and> message u' = message u
                 \<and> phase u' =
                     (if phase u = None \<and> Phase build = BuildPhaseFailed
                         \<and> completionTime u \<noteq> None
                      then Some BuildPhaseFailed else phase u)
                 \<and> (case createBuildPatch cl build (apply_update u' build) of
                       Inl e \<Rightarrow>
                         patched (snd (handleBuild cl build c)) = patched c
                         \<and> fst (updateBuild cl build u pod c2)
                             = Some (Errorf ''failed to create a build patch'')
                     | Inr patch \<Rightarrow>
                         patched (snd (handleBuild cl build c)) = patched c @ [(build, u')]
                         \<and> fst (updateBuild cl build u pod c2)
                             = (case Patch cl (Namespace build) (build_Name build) patch of
                                  Inl e \<Rightarrow> Some e
                                | Inr patchedBuild \<Rightarrow> None)))
     \<and> fst (handleBuild cl build c)
         = (case err of
              Some e \<Rightarrow> Some e
            | None \<Rightarrow>
                (case update of
                   None \<Rightarrow> None
                 | Some u \<Rightarrow>
                     if isEmpty u then None else fst (updateBuild cl build u pod c2)))"
proof -
  have nopipe: "\<not> JenkinsPipelineStrategy build"
    using assms(1) by (auto simp: shouldIgnore_def)
  have frame: "updateBuild_calls c2 = updateBuild_calls c" "patched c2 = patched c"
    using handleBuild_switch_frame[OF assms(4)] by simp_all
  have lookup: "(case (case podStore_Get cl (Namespace build) (GetBuildPodName cl build) of
                    Inr p \<Rightarrow> Inr (Some p)
                  | Inl podErr \<Rightarrow> if \<not> IsNotFound podErr then Inl podErr else Inr None) of
              Inl podErr \<Rightarrow> f podErr | Inr pod \<Rightarrow> g pod) = g pod" for f g
    using assms(2,3) by auto
  have unfolded: "handleBuild cl build c =
      (let (updateErr, c3) =
             (case update of
                None \<Rightarrow> (None, c2)
              | Some u \<Rightarrow> if \<not> isEmpty u then updateBuild cl build u pod c2 else (None, c2))
       in if err \<noteq> None then (err, c3)
          else if updateErr \<noteq> None then (updateErr, c3)
          else (None, c3))"
    unfolding handleBuild_def using assms(1) nopipe
    by (simp add: Let_def lookup assms(4))
  show ?thesis
  proof (cases "\<exists>u. update = Some u \<and> \<not> isEmpty u")
    case True
    then obtain u where u: "update = Some u" "\<not> isEmpty u"
      by blast
    obtain updateErr c3 where ub: "updateBuild cl build u pod c2 = (updateErr, c3)"
      by (cases "updateBuild cl build u pod c2")
    have state: "snd (handleBuild cl build c) = c3"
      unfolding unfolded using u ub by (simp split: option.splits)
    have result: "fst (handleBuild cl build c)
        = (case err of Some e \<Rightarrow> Some e | None \<Rightarrow> updateErr)"
      unfolding unfolded using u ub by (auto split: option.splits)
    have calls: "updateBuild_calls c3 = Suc (updateBuild_calls c)"
      using updateBuild_calls_Suc[of cl build u pod c2] ub frame by simp
    have patches: "if \<exists>p. phase u = Some p \<and> \<not> isValidTransition (Phase build) p
       then patched c3 = patched c
            \<and> fst (updateBuild cl build u pod c2) = Some (Errorf ''invalid phase transition'')
       else \<exists>u'. reason u' = reason u \<and> message u' = message u
            \<and> phase u' =
                (if phase u = None \<and> Phase build = BuildPhaseFailed
                    \<and> completionTime u \<noteq> None
                 then Some BuildPhaseFailed else phase u)
            \<and> (case createBuildPatch cl build (apply_update u' build) of
                  Inl e \<Rightarrow>
                    patched c3 = patched c
                    \<and> fst (updateBuild cl build u pod c2)
                        = Some (Errorf ''failed to create a build patch'')
                | Inr patch \<Rightarrow>
                    patched c3 = patched c @ [(build, u')]
                    \<and> fst (updateBuild cl build u pod c2)
                        = (case Patch cl (Namespace build) (build_Name build) patch of
                             Inl e \<Rightarrow> Some e
                           | Inr patchedBuild \<Rightarrow> None))"
      using updateBuild_patches[of update build cl pod c2 for update, of u]
      by (simp only: ub snd_conv frame(2))
    have first: "updateBuild_calls (snd (handleBuild cl build c))
           = updateBuild_calls c + (if \<exists>u. update = Some u \<and> \<not> isEmpty u then 1 else 0)"
      using True calls by (simp add: state)
    have last: "fst (handleBuild cl build c)
         = (case err of
              Some e \<Rightarrow> Some e
            | None \<Rightarrow>
                (case update of
                   None \<Rightarrow> None
                 | Some u \<Rightarrow>
                     if isEmpty u then None else fst (updateBuild cl build u pod c2)))"
      using u ub by (cases err) (simp_all add: result)
    show ?thesis
      apply (intro conjI)
        apply (rule first)
       apply (simp only: u option.case if_False state)
       apply (rule patches)
      apply (rule last)
      done
  next
    case False
    then have "(case update of
                None \<Rightarrow> (None, c2)
              | Some u \<Rightarrow> if \<not> isEmpty u then updateBuild cl build u pod c2 else (None, c2))
            = (None, c2)"
      by (auto split: option.splits)
    then show ?thesis
      unfolding unfolded using False frame by (auto split: option.splits)
  qed
qed

text \<open>
  The Build \<^verbatim>\<open>ns/b\<close> with the output stream that has no repository: the handler
  returns an error and a non-empty update, and the update is patched onto the Build.
\<close>

theorem handleBuild_updateBuild_patch_witness:
  "handleBuild_switch registrylessCluster outputBuild None newController =
     (Some (emptyUpdate\<lparr>reason := Some StatusReasonInvalidOutputReference,
              message := Some StatusMessageInvalidOutputRef\<rparr>),
      Some errNoIntegratedRegistry,
      newController\<lparr>imageStreamQueue := Add ''ns/b'' [''ns/is''] newResourceTriggerQueue,
        recorded := [(EventTypeWarning, InvalidOutput)]\<rparr>)
   \<and> updateBuild_calls (snd (handleBuild registrylessCluster outputBuild newController)) = 1
   \<and> (\<exists>u'. reason u' = Some StatusReasonInvalidOutputReference
         \<and> message u' = Some StatusMessageInvalidOutputRef
         \<and> phase u' = None
         \<and> patched (snd (handleBuild registrylessCluster outputBuild newController))
             = [(outputBuild, u')])
   \<and> fst (handleBuild registrylessCluster outputBuild newController)
      = Some errNoIntegratedRegistry"
proof -
  let ?u = "emptyUpdate\<lparr>reason := Some StatusReasonInvalidOutputReference,
              message := Some StatusMessageInvalidOutputRef\<rparr>"
  let ?c2 = "newController\<lparr>imageStreamQueue :=
               Add ''ns/b'' [''ns/is''] newResourceTriggerQueue,
             recorded := [(EventTypeWarning, InvalidOutput)]\<rparr>"
  have h1: "\<not> shouldIgnore outputBuild"
    by (simp add: shouldIgnore_def IsBuildComplete_def outputBuild_def exampleBuild_def)
  have h3: "(Inl NotFound = Inr examplePod \<and> None = Some examplePod)
      \<or> (\<exists>e. (Inl NotFound :: error + Pod) = Inl e \<and> IsNotFound e \<and> (None :: Pod option) = None)"
    by simp
  have h2: "podStore_Get registrylessCluster (Namespace outputBuild)
              (GetBuildPodName registrylessCluster outputBuild) = Inl NotFound"
    by (simp add: registrylessCluster_def exampleCluster_def)
  have h4: "handleBuild_switch registrylessCluster outputBuild None newController
              = (Some ?u, Some errNoIntegratedRegistry, ?c2)"
    by (simp add: handleBuild_switch_def handleNewBuild_def shouldCancel_def
        IsBuildComplete_def createBuildPod_def resolveImageReferences_def
        resolveOutputDockerImageReference_def resolveImageStreamLocation_def
        unresolvedImageStreamReferences_def unresolvedStream_def mutatorRefs_def
        outputBuild_def exampleBuild_def registrylessCluster_def exampleCluster_def
        resourceName_def newController_def Eventf_def update_defs Let_def)
  have nonempty: "\<not> isEmpty ?u"
    by (simp add: isEmpty_def emptyUpdate_def)
  have fields: "reason ?u = Some StatusReasonInvalidOutputReference"
    "message ?u = Some StatusMessageInvalidOutputRef" "phase ?u = None"
    "Phase outputBuild = BuildPhaseNew"
    by (simp_all add: emptyUpdate_def outputBuild_def exampleBuild_def)
  have encoded: "createBuildPatch registrylessCluster older newer = Inr ''{}''" for older newer
    by (simp add: registrylessCluster_def exampleCluster_def)
  have empty: "patched newController = []" "updateBuild_calls newController = 0"
    by (simp_all add: newController_def)
  from handleBuild_updateBuild_patch[OF h1 h2 h3 h4]
  have "updateBuild_calls (snd (handleBuild registrylessCluster outputBuild newController)) = 1
     \<and> (\<exists>u'. reason u' = Some StatusReasonInvalidOutputReference
           \<and> message u' = Some StatusMessageInvalidOutputRef
           \<and> phase u' = None
           \<and> patched (snd (handleBuild registrylessCluster outputBuild newController))
               = [(outputBuild, u')]
           \<and> fst (updateBuild registrylessCluster outputBuild ?u None ?c2)
               = (case Patch registrylessCluster (Namespace outputBuild)
                         (build_Name outputBuild) ''{}'' of
                    Inl e \<Rightarrow> Some e
                  | Inr patchedBuild \<Rightarrow> None))
     \<and> fst (handleBuild registrylessCluster outputBuild newController)
         = Some errNoIntegratedRegistry"
    using nonempty by (simp add: fields encoded empty)
  then show ?thesis
    using h4 by blast
qed

text \<open>
  The running Build \<^verbatim>\<open>ns/b\<close> whose pod is pending: the handler's update, to the
  phase Pending, is not empty and \<open>updateBuild\<close> is called, yet no patch is issued,
  because Running to Pending is not a valid transition.
\<close>

theorem handleBuild_invalid_transition_counterexample:
  "handleBuild_switch pendingPodCluster runningBuild (Some examplePod) newController
     = (Some (transitionToPhase BuildPhasePending [] (Text [])), None, newController)
   \<and> \<not> isEmpty (transitionToPhase BuildPhasePending [] (Text []))
   \<and> updateBuild_calls (snd (handleBuild pendingPodCluster runningBuild newController)) = 1
   \<and> patched (snd (handleBuild pendingPodCluster runningBuild newController)) = []
   \<and> fst (handleBuild pendingPodCluster runningBuild newController)
       = Some (Errorf ''invalid phase transition'')"
  by (simp add: handleBuild_def handleBuild_switch_def handleActiveBuild_def updateBuild_def
      shouldIgnore_def shouldCancel_def IsBuildComplete_def isValidTransition_def
      isEmpty_def pendingPodCluster_def runningBuild_def
      exampleCluster_def exampleBuild_def examplePod_def newController_def update_defs
      Let_def)

end
